theory Spec2Isabelle
  imports Complex_Main "HOL-Library.Multiset" "HOL-Library.AList"
begin

section \<open>JavaScript strings and thrown values\<close>

text \<open>
  A JavaScript string is a sequence of UTF-16 code units; a code unit is modelled as a
  natural number. \<open>jstr\<close> embeds an ASCII literal of the source.
\<close>

type_synonym jsstring = "nat list"

definition jstr :: "string \<Rightarrow> jsstring" where
  "jstr s = map of_char s"

fun startsWith :: "jsstring \<Rightarrow> jsstring \<Rightarrow> bool" where
  "startsWith s [] = True"
| "startsWith [] (p # ps) = False"
| "startsWith (c # cs) (p # ps) = (c = p \<and> startsWith cs ps)"

text \<open>\<open>String.prototype.includes\<close>: the pattern occurs at some position of the string.\<close>

fun str_includes :: "jsstring \<Rightarrow> jsstring \<Rightarrow> bool" where
  "str_includes [] p = (p = [])"
| "str_includes (c # cs) p = (startsWith (c # cs) p \<or> str_includes cs p)"

text \<open>
  The values this program throws and catches are \<open>Error\<close> objects: a name and a message.
  \<open>toString\<close> is \<open>Error.prototype.toString\<close>.
\<close>

datatype thrown = JsError (err_name: jsstring) (err_message: jsstring)

definition toString :: "thrown \<Rightarrow> jsstring" where
  "toString e =
     (if err_name e = [] then err_message e
      else if err_message e = [] then err_name e
      else err_name e @ jstr '': '' @ err_message e)"

text \<open>\<open>new Error(msg)\<close>\<close>

definition newError :: "jsstring \<Rightarrow> thrown" where
  "newError msg = JsError (jstr ''Error'') msg"

section \<open>The retry wrapper (\<open>withRetry\<close>, App.tsx)\<close>

text \<open>
  \<open>apiCall\<close> is a nullary asynchronous closure; \<open>apiCall k\<close> is the way its invocation
  number \<open>k\<close> (counted from 0) settles: \<open>Inr v\<close> when the promise resolves to \<open>v\<close>,
  \<open>Inl e\<close> when it rejects with \<open>e\<close>. \<open>rnd k\<close> is the value of the \<open>k\<close>-th call of
  \<open>Math.random()\<close>. The log records what the wrapper does to the outside world: how often
  it invoked the operation and the delays it slept (one warning is printed per delay).
\<close>

record retry_log =
  invocations :: nat
  delays :: "rat list"

definition isRateLimitError :: "thrown \<Rightarrow> bool" where
  "isRateLimitError error =
     (str_includes (toString error) (jstr ''429'') \<or>
      str_includes (toString error) (jstr ''RESOURCE_EXHAUSTED''))"

definition maxRetriesError :: thrown where
  "maxRetriesError = newError (jstr ''Max retries reached. This should not happen.'')"

function withRetry_loop ::
  "(nat \<Rightarrow> thrown + 'a) \<Rightarrow> (nat \<Rightarrow> rat) \<Rightarrow> int \<Rightarrow> rat \<Rightarrow> nat \<Rightarrow> retry_log
     \<Rightarrow> (thrown + 'a) \<times> retry_log" where
  "withRetry_loop apiCall rnd maxRetries initialDelay attempt lg =
     (if int attempt < maxRetries then
        (case apiCall (invocations lg) of
           Inr v \<Rightarrow> (Inr v, lg\<lparr>invocations := Suc (invocations lg)\<rparr>)
         | Inl error \<Rightarrow>
             (if isRateLimitError error \<and> int attempt < maxRetries - 1 then
                withRetry_loop apiCall rnd maxRetries initialDelay (Suc attempt)
                  (lg\<lparr>invocations := Suc (invocations lg),
                       delays := delays lg @
                         [initialDelay * 2 ^ (Suc attempt - 1) * (1 / 2 + rnd (length (delays lg)))]\<rparr>)
              else (Inl error, lg\<lparr>invocations := Suc (invocations lg)\<rparr>)))
      else (Inl maxRetriesError, lg))"
  by pat_completeness auto
termination
  by (relation "measure (\<lambda>(apiCall, rnd, maxRetries, initialDelay, attempt, lg).
        nat (maxRetries - int attempt))") auto

declare withRetry_loop.simps [simp del]

definition withRetry ::
  "(nat \<Rightarrow> thrown + 'a) \<Rightarrow> (nat \<Rightarrow> rat) \<Rightarrow> int \<Rightarrow> rat \<Rightarrow> (thrown + 'a) \<times> retry_log" where
  "withRetry apiCall rnd maxRetries initialDelay =
     withRetry_loop apiCall rnd maxRetries initialDelay 0 \<lparr>invocations = 0, delays = []\<rparr>"

text \<open>The default arguments: \<open>maxRetries = 3, initialDelay = 1000\<close>.\<close>

definition default_maxRetries :: int where
  "default_maxRetries = 3"

definition default_initialDelay :: rat where
  "default_initialDelay = 1000"

text \<open>Concrete operations and random streams used in the evaluations below.\<close>

definition error429 :: thrown where
  "error429 = newError (jstr ''got status: 429 Too Many Requests'')"

definition errorNetwork :: thrown where
  "errorNetwork = newError (jstr ''Failed to fetch'')"

definition always429 :: "nat \<Rightarrow> thrown + nat" where
  "always429 k = Inl error429"

definition twice429 :: "nat \<Rightarrow> thrown + nat" where
  "twice429 k = (if k < 2 then Inl error429 else Inr 7)"

definition alwaysNetwork :: "nat \<Rightarrow> thrown + nat" where
  "alwaysNetwork k = Inl errorNetwork"

definition rndHalf :: "nat \<Rightarrow> rat" where
  "rndHalf k = 1 / 2"

section \<open>The data model (types.ts, App.tsx)\<close>

text \<open>
  JavaScript numbers that hold ids, indexes and scores are modelled as integers (the
  response schema of the option generator declares ids and scores as integers). A
  \<open>Map\<close> is an association list in insertion order with distinct keys:
  \<open>new Map(m).set(k, v)\<close> is \<open>AList.update k v m\<close>, which replaces the value of a
  key that is present in place and appends a new key at the end.
\<close>

record GeneratedOption =
  o_text :: jsstring
  o_score :: int

record Answer =
  questionId :: int
  score :: int
  optionText :: jsstring
  remark :: jsstring

record Question =
  q_id :: int
  q_text :: jsstring
  categoryKey :: jsstring
  categoryTitle :: jsstring

datatype ChatRole = User | Model

record ChatMessage =
  role :: ChatRole
  msg_text :: jsstring

datatype AppState = Introduction | Quiz | Results

datatype VoiceModalStatus = Idle | Listening | Processing | VoiceError | Initializing

record SavedResult =
  timestamp :: int
  sr_answers :: "(int \<times> Answer) list"
  sr_worldviewImageUrl :: "jsstring option"

subsection \<open>The question list (questions.ts)\<close>

record CategoryStructure =
  cat_key :: jsstring
  cat_questions :: "int list"

definition questionCategoriesStructure :: "CategoryStructure list" where
  "questionCategoriesStructure =
    [\<lparr>cat_key = jstr ''A'', cat_questions =
        [1, 2, 3, 4, 5, 6, 7, 8, 9, 10, 11, 12, 13, 14, 15, 16, 17, 18, 19]\<rparr>,
     \<lparr>cat_key = jstr ''B'', cat_questions =
        [20, 21, 22, 23, 24, 25, 26, 27, 28, 29, 30, 31, 32, 33, 34, 35, 36, 37, 38]\<rparr>,
     \<lparr>cat_key = jstr ''C'', cat_questions =
        [39, 40, 41, 42, 43, 44, 45, 46, 47, 48, 49, 50, 51, 52, 53, 54, 55, 56, 57]\<rparr>,
     \<lparr>cat_key = jstr ''D'', cat_questions =
        [58, 59, 60, 61, 62, 63, 64, 65, 66, 67, 68, 69, 70, 71, 72, 73, 74, 75, 76]\<rparr>,
     \<lparr>cat_key = jstr ''E'', cat_questions =
        [77, 78, 79, 80, 81, 82, 83, 84, 85, 86, 87, 88, 89, 90, 91, 92, 93, 94, 95]\<rparr>,
     \<lparr>cat_key = jstr ''F'', cat_questions =
        [96, 97, 98, 99, 100, 101, 102, 103, 104, 105, 106, 107, 108, 109]\<rparr>,
     \<lparr>cat_key = jstr ''G'', cat_questions =
        [110, 111, 112, 113, 114, 115, 116, 117, 118, 119, 120, 121, 122, 123]\<rparr>,
     \<lparr>cat_key = jstr ''H'', cat_questions =
        [124, 125, 126, 127, 128, 129, 130, 131, 132]\<rparr>,
     \<lparr>cat_key = jstr ''I'', cat_questions =
        [133, 134, 135, 136, 137, 138, 139, 140]\<rparr>]"

text \<open>\<open>flatMap\<close> over the categories; the texts are filled in later by the application.\<close>

definition initialQuestions :: "Question list" where
  "initialQuestions =
     concat (map (\<lambda>category.
        map (\<lambda>q. \<lparr>q_id = q, q_text = [], categoryKey = cat_key category, categoryTitle = []\<rparr>)
          (cat_questions category))
       questionCategoriesStructure)"

subsection \<open>The state of the application\<close>

text \<open>
  The state of the \<open>App\<close> component that the handlers below read and write, together
  with the \<open>quizProgress\<close> entry of local storage (\<open>None\<close>: the key is absent).
\<close>

record QuizProgress =
  qp_appState :: AppState
  qp_currentQuestionIndex :: int
  qp_answers :: "(int \<times> Answer) list"
  qp_optionsCache :: "(int \<times> GeneratedOption list) list"
  qp_shuffledQuestions :: "Question list"
  qp_worldviewImageHistory :: "jsstring option list"

text \<open>
  The browser and SDK objects that the refs of the live voice session point to, each
  reduced to the state the teardown routine reads or changes; a ref that is \<open>None\<close>
  holds \<open>null\<close>. \<open>effects\<close> is the log of what the handlers did to such objects and to
  the speech synthesiser, in order.
\<close>

datatype LiveSession = SessionOpen | SessionClosed

datatype AudioContext = Running | Suspended | Closed

datatype MediaStreamTrack = Live | Ended

datatype AudioNode = Connected | Disconnected

datatype Effect =
    SessionClose
  | TrackStop
  | NodeDisconnect
  | ContextClose
  | SpeechCancel
  | SpeechSpeak jsstring jsstring

record App =
  appState :: AppState
  currentQuestionIndex :: int
  answers :: "(int \<times> Answer) list"
  optionsCache :: "(int \<times> GeneratedOption list) list"
  shuffledQuestions :: "Question list"
  error :: "jsstring option"
  worldviewImageHistory :: "jsstring option list"
  viewingAnswers :: "(int \<times> Answer) list option"
  viewingWorldviewImage :: "jsstring option"
  isTtsEnabled :: bool
  isTtsActive :: bool
  isVoiceModalOpen :: bool
  voiceModalStatus :: VoiceModalStatus
  voiceModalError :: "jsstring option"
  chatHistory :: "ChatMessage list"
  isAiSpeaking :: bool
  liveSessionRef :: "LiveSession option"
  inputAudioContextRef :: "AudioContext option"
  outputAudioContextRef :: "AudioContext option"
  mediaStreamRef :: "MediaStreamTrack list option"
  audioProcessorNodeRef :: "AudioNode option"
  mediaStreamSourceRef :: "AudioNode option"
  effects :: "Effect list"
  stored_quizProgress :: "QuizProgress option"

section \<open>Starting the quiz (\<open>handleStartQuiz\<close>, App.tsx)\<close>

text \<open>
  The Fisher-Yates loop \<open>for (let i = array.length - 1; i > 0; i--)\<close>. \<open>rnd k\<close> is the
  value of the \<open>k\<close>-th call of \<open>Math.random()\<close>, a number in \<open>[0, 1)\<close>, so that
  \<open>j = Math.floor(Math.random() * (i + 1))\<close> is an index in \<open>[0, i]\<close>. The destructuring
  swap reads both elements before it writes them.
\<close>

fun shuffle_loop :: "(nat \<Rightarrow> rat) \<Rightarrow> nat \<Rightarrow> nat \<Rightarrow> 'a list \<Rightarrow> 'a list" where
  "shuffle_loop rnd k 0 array = array"
| "shuffle_loop rnd k (Suc i') array =
     (let i = Suc i';
          j = nat \<lfloor>rnd k * (of_nat i + 1)\<rfloor>
      in shuffle_loop rnd (Suc k) i' (array[i := array ! j, j := array ! i]))"

definition shuffle :: "(nat \<Rightarrow> rat) \<Rightarrow> 'a list \<Rightarrow> 'a list" where
  "shuffle rnd array = shuffle_loop rnd 0 (length array - 1) array"

definition handleStartQuiz :: "(nat \<Rightarrow> rat) \<Rightarrow> App \<Rightarrow> App" where
  "handleStartQuiz rnd s =
     s\<lparr>stored_quizProgress := None,
       shuffledQuestions := shuffle rnd initialQuestions,
       currentQuestionIndex := 0,
       answers := [],
       optionsCache := [],
       error := None,
       worldviewImageHistory := [],
       viewingAnswers := None,
       viewingWorldviewImage := None,
       appState := Quiz\<rparr>"

text \<open>A state in the middle of a quiz, used in the evaluations below.\<close>

definition sampleAnswer :: Answer where
  "sampleAnswer = \<lparr>questionId = 5, score = 4, optionText = jstr ''Yes'', remark = []\<rparr>"

definition sampleOptions :: "GeneratedOption list" where
  "sampleOptions = [\<lparr>o_text = jstr ''No'', o_score = 1\<rparr>, \<lparr>o_text = jstr ''Yes'', o_score = 4\<rparr>]"

definition midQuiz :: App where
  "midQuiz =
     \<lparr>appState = Quiz, currentQuestionIndex = 1,
      answers = [(5, sampleAnswer)],
      optionsCache = [(5, sampleOptions), (9, sampleOptions)],
      shuffledQuestions = rev initialQuestions,
      error = None,
      worldviewImageHistory = [Some (jstr ''data:image/jpeg;base64,AAAA'')],
      viewingAnswers = None, viewingWorldviewImage = None,
      isTtsEnabled = True, isTtsActive = False,
      isVoiceModalOpen = True, voiceModalStatus = Listening, voiceModalError = None,
      chatHistory = [\<lparr>role = Model, msg_text = jstr ''What do you think?''\<rparr>],
      isAiSpeaking = True,
      liveSessionRef = Some SessionOpen,
      inputAudioContextRef = Some Running, outputAudioContextRef = Some Running,
      mediaStreamRef = Some [Live],
      audioProcessorNodeRef = Some Connected, mediaStreamSourceRef = Some Connected,
      effects = [],
      stored_quizProgress = Some
        \<lparr>qp_appState = Quiz, qp_currentQuestionIndex = 1,
         qp_answers = [(5, sampleAnswer)],
         qp_optionsCache = [(5, sampleOptions), (9, sampleOptions)],
         qp_shuffledQuestions = rev initialQuestions,
         qp_worldviewImageHistory = [Some (jstr ''data:image/jpeg;base64,AAAA'')]\<rparr>\<rparr>"


section \<open>Translations (i18n.ts)\<close>

datatype Language = Ru | En | De | Fr | Es | Zh | Ko

text \<open>
  The table \<open>translations\<close> (translations.ts) is a parameter: for each language a map
  from keys to strings. \<open>a || b\<close> on strings takes \<open>b\<close> when \<open>a\<close> is undefined or
  empty. \<open>t\<close> is modelled for the calls without interpolation options, which are the
  ones made by the handlers below.
\<close>

type_synonym Translations = "Language \<Rightarrow> jsstring \<rightharpoonup> jsstring"

definition or_else :: "jsstring option \<Rightarrow> jsstring \<Rightarrow> jsstring" where
  "or_else a b = (case a of None \<Rightarrow> b | Some x \<Rightarrow> if x = [] then b else x)"

definition t :: "Translations \<Rightarrow> jsstring \<Rightarrow> Language \<Rightarrow> jsstring" where
  "t translations key lang =
     or_else (translations lang key)
       (or_else (translations En key) (jstr ''['' @ key @ jstr '']''))"

definition getSpeechLang :: "Language \<Rightarrow> jsstring" where
  "getSpeechLang lang =
     (case lang of
        Ru \<Rightarrow> jstr ''ru-RU'' | En \<Rightarrow> jstr ''en-US'' | De \<Rightarrow> jstr ''de-DE''
      | Fr \<Rightarrow> jstr ''fr-FR'' | Es \<Rightarrow> jstr ''es-ES'' | Zh \<Rightarrow> jstr ''zh-CN''
      | Ko \<Rightarrow> jstr ''ko-KR'')"

section \<open>Answering and moving on (App.tsx, QuestionCard.tsx)\<close>

definition handleAnswer :: "Answer \<Rightarrow> App \<Rightarrow> App" where
  "handleAnswer answer s = s\<lparr>answers := AList.update (questionId answer) answer (answers s)\<rparr>"

definition handleNextQuestion :: "App \<Rightarrow> App" where
  "handleNextQuestion s =
     (if currentQuestionIndex s < int (length (shuffledQuestions s)) - 1
      then s\<lparr>currentQuestionIndex := currentQuestionIndex s + 1\<rparr>
      else s\<lparr>appState := Results\<rparr>)"

text \<open>
  \<open>String.prototype.trim\<close> removes the white space and line terminator code units of
  ECMAScript from both ends.
\<close>

definition isWhiteSpace :: "nat \<Rightarrow> bool" where
  "isWhiteSpace c =
     (c \<in> set [9, 10, 11, 12, 13, 32, 160, 5760, 8192, 8193, 8194, 8195, 8196, 8197, 8198,
               8199, 8200, 8201, 8202, 8232, 8233, 8239, 8287, 12288, 65279])"

definition trim :: "jsstring \<Rightarrow> jsstring" where
  "trim str = rev (dropWhile isWhiteSpace (rev (dropWhile isWhiteSpace str)))"

text \<open>
  \<open>handleNext\<close> of the question card, given the card's props (\<open>question\<close>, \<open>language\<close>)
  and state (\<open>selectedOption\<close>, and \<open>remark\<close>, written \<open>remark'\<close>): the calls it makes, in order, to the
  callbacks \<open>onAnswer\<close> and \<open>onNext\<close> and to \<open>alert\<close>.
\<close>

datatype CardCall = OnAnswer Answer | OnNext | Alert jsstring

definition handleNext ::
  "Translations \<Rightarrow> Language \<Rightarrow> Question \<Rightarrow> GeneratedOption option \<Rightarrow> jsstring \<Rightarrow> CardCall list" where
  "handleNext translations language question selectedOption remark' =
     (case selectedOption of
        Some opt \<Rightarrow>
          [OnAnswer \<lparr>questionId = q_id question, score = o_score opt,
                     optionText = o_text opt, remark = remark'\<rparr>,
           OnNext]
      | None \<Rightarrow>
          if trim remark' \<noteq> [] then
            [OnAnswer \<lparr>questionId = q_id question, score = 0,
                       optionText = t translations (jstr ''custom_answer_text'') language,
                       remark = trim remark'\<rparr>,
             OnNext]
          else [Alert (t translations (jstr ''alert_select_option'') language)])"

text \<open>
  \<open>App\<close> renders the card with \<open>onAnswer = handleAnswer\<close> and
  \<open>onNext = handleNextQuestion\<close>; \<open>alert\<close> does not touch the state of the application.
\<close>

fun cardCall :: "App \<Rightarrow> CardCall \<Rightarrow> App" where
  "cardCall s (OnAnswer answer) = handleAnswer answer s"
| "cardCall s OnNext = handleNextQuestion s"
| "cardCall s (Alert message) = s"

definition clickNext ::
  "Translations \<Rightarrow> Language \<Rightarrow> Question \<Rightarrow> GeneratedOption option \<Rightarrow> jsstring \<Rightarrow> App \<Rightarrow> App" where
  "clickNext translations language question selectedOption remark' s =
     foldl cardCall s (handleNext translations language question selectedOption remark')"

section \<open>The live voice session (App.tsx)\<close>

text \<open>
  \<open>speak\<close> of \<open>App\<close>: nothing happens when text-to-speech is disabled, the browser has no
  speech synthesiser, or the text is empty; otherwise pending speech is cancelled and the
  text is spoken. The promise resolves when the utterance ends or fails, which resets
  \<open>isTtsActive\<close>; the model describes the state at that moment.
\<close>

definition speak :: "bool \<Rightarrow> jsstring \<Rightarrow> Language \<Rightarrow> App \<Rightarrow> App" where
  "speak hasSpeechSynthesis text lang s =
     (if \<not> isTtsEnabled s \<or> \<not> hasSpeechSynthesis \<or> text = [] then s
      else s\<lparr>effects := effects s @ [SpeechCancel, SpeechSpeak text (getSpeechLang lang)],
             isTtsActive := False\<rparr>)"

text \<open>
  \<open>cleanupAudioResources\<close>: the tracks of the microphone stream are stopped, the two
  nodes are disconnected, their refs are set to \<open>null\<close>; each audio context that exists
  and is not closed is closed, and its ref is set to \<open>null\<close> when the closing is done.
\<close>

definition closeContext :: "AudioContext option \<Rightarrow> AudioContext option \<times> Effect list" where
  "closeContext ref =
     (case ref of
        None \<Rightarrow> (None, [])
      | Some ctx \<Rightarrow> if ctx \<noteq> Closed then (None, [ContextClose]) else (Some ctx, []))"

definition cleanupAudioResources :: "App \<Rightarrow> App" where
  "cleanupAudioResources s =
     s\<lparr>mediaStreamRef := None,
       audioProcessorNodeRef := None,
       mediaStreamSourceRef := None,
       inputAudioContextRef := fst (closeContext (inputAudioContextRef s)),
       outputAudioContextRef := fst (closeContext (outputAudioContextRef s)),
       effects := effects s
         @ (case mediaStreamRef s of None \<Rightarrow> [] | Some tracks \<Rightarrow> map (\<lambda>track. TrackStop) tracks)
         @ (case audioProcessorNodeRef s of None \<Rightarrow> [] | Some node \<Rightarrow> [NodeDisconnect])
         @ (case mediaStreamSourceRef s of None \<Rightarrow> [] | Some node \<Rightarrow> [NodeDisconnect])
         @ snd (closeContext (inputAudioContextRef s))
         @ snd (closeContext (outputAudioContextRef s))\<rparr>"

definition closeSession :: "App \<Rightarrow> App" where
  "closeSession s =
     (case liveSessionRef s of
        None \<Rightarrow> s
      | Some session \<Rightarrow> s\<lparr>liveSessionRef := Some SessionClosed, effects := effects s @ [SessionClose]\<rparr>)"

definition handleCloseVoiceModal :: "App \<Rightarrow> App" where
  "handleCloseVoiceModal s =
     (cleanupAudioResources (closeSession (s\<lparr>isVoiceModalOpen := False\<rparr>)))
       \<lparr>chatHistory := [], isAiSpeaking := False\<rparr>"

text \<open>
  A function call of a server message. \<open>currentOptions[selectedOptionIndex]\<close> is
  \<open>undefined\<close> when the index is not one of \<open>0 .. length - 1\<close>.
\<close>

record FunctionCall =
  fc_name :: jsstring
  selectedOptionIndex :: int
  comment :: jsstring
  farewell :: jsstring

definition optionAt :: "GeneratedOption list \<Rightarrow> int \<Rightarrow> GeneratedOption option" where
  "optionAt currentOptions i =
     (if 0 \<le> i \<and> i < int (length currentOptions) then Some (currentOptions ! nat i) else None)"

text \<open>
  The body of the loop over \<open>message.toolCall.functionCalls\<close> in \<open>onmessage\<close>.
  \<open>currentQuestion\<close>, \<open>currentOptions\<close> and \<open>language\<close> are the values captured when the
  session was started.
\<close>

definition onFunctionCall ::
  "bool \<Rightarrow> Language \<Rightarrow> Question \<Rightarrow> GeneratedOption list \<Rightarrow> App \<Rightarrow> FunctionCall \<Rightarrow> App" where
  "onFunctionCall hasSpeechSynthesis language currentQuestion currentOptions s fc =
     (if fc_name fc = jstr ''submitAnswer'' then
        let s1 = (case optionAt currentOptions (selectedOptionIndex fc) of
                    Some opt \<Rightarrow>
                      handleAnswer \<lparr>questionId = q_id currentQuestion, score = o_score opt,
                                    optionText = o_text opt, remark = comment fc\<rparr> s
                  | None \<Rightarrow> s);
            s2 = (if farewell fc \<noteq> [] then speak hasSpeechSynthesis (farewell fc) language s1
                  else s1)
        in handleCloseVoiceModal s2
      else s)"

definition onToolCall ::
  "bool \<Rightarrow> Language \<Rightarrow> Question \<Rightarrow> GeneratedOption list \<Rightarrow> FunctionCall list \<Rightarrow> App \<Rightarrow> App" where
  "onToolCall hasSpeechSynthesis language currentQuestion currentOptions functionCalls s =
     foldl (onFunctionCall hasSpeechSynthesis language currentQuestion currentOptions) s functionCalls"

text \<open>Concrete inputs used in the evaluations below.\<close>

definition noTranslations :: Translations where
  "noTranslations lang key = None"

definition question5 :: Question where
  "question5 = \<lparr>q_id = 5, q_text = jstr ''Q5'', categoryKey = jstr ''A'', categoryTitle = jstr ''A''\<rparr>"

definition submitOutOfRange :: FunctionCall where
  "submitOutOfRange =
     \<lparr>fc_name = jstr ''submitAnswer'', selectedOptionIndex = 2,
      comment = jstr ''because'', farewell = jstr ''Bye''\<rparr>"

definition submitValid :: FunctionCall where
  "submitValid =
     \<lparr>fc_name = jstr ''submitAnswer'', selectedOptionIndex = 1,
      comment = jstr ''because'', farewell = jstr ''Bye''\<rparr>"

section \<open>The batched option fetch (\<open>generateBatchQuestionOptions\<close>, App.tsx)\<close>

subsection \<open>Parsed JSON\<close>

text \<open>
  A value produced by \<open>JSON.parse\<close>. An object is the list of its properties. The
  property reads of the validation use the keys \<open>questionId\<close>, \<open>options\<close>, \<open>text\<close> and
  \<open>score\<close>, which no array, string, number or boolean has: such a read gives
  \<open>undefined\<close> (\<open>None\<close>). Reading a property of \<open>null\<close> throws a \<open>TypeError\<close>; the
  functions below check for \<open>null\<close> before they call \<open>get_prop\<close>.
\<close>

datatype json =
    JNull
  | JBool bool
  | JNum int
  | JStr jsstring
  | JArr "json list"
  | JObj "(jsstring \<times> json) list"

fun truthy :: "json \<Rightarrow> bool" where
  "truthy JNull = False"
| "truthy (JBool b) = b"
| "truthy (JNum n) = (n \<noteq> 0)"
| "truthy (JStr str) = (str \<noteq> [])"
| "truthy (JArr xs) = True"
| "truthy (JObj kvs) = True"

fun get_prop :: "json \<Rightarrow> jsstring \<Rightarrow> json option" where
  "get_prop (JObj kvs) key = map_of kvs key"
| "get_prop v key = None"

text \<open>\<open>typeof x === 'number'\<close>, \<open>typeof x === 'string'\<close>, \<open>Array.isArray(x)\<close>\<close>

fun isNumber :: "json option \<Rightarrow> bool" where
  "isNumber (Some (JNum n)) = True"
| "isNumber v = False"

fun isString :: "json option \<Rightarrow> bool" where
  "isString (Some (JStr str)) = True"
| "isString v = False"

fun isArray :: "json option \<Rightarrow> bool" where
  "isArray (Some (JArr xs)) = True"
| "isArray v = False"

text \<open>The value behind a read whose type has been tested.\<close>

fun the_number :: "json option \<Rightarrow> int" where
  "the_number (Some (JNum n)) = n"
| "the_number v = 0"

fun the_string :: "json option \<Rightarrow> jsstring" where
  "the_string (Some (JStr str)) = str"
| "the_string v = []"

fun the_array :: "json option \<Rightarrow> json list" where
  "the_array (Some (JArr xs)) = xs"
| "the_array v = []"

definition nullReadError :: "jsstring \<Rightarrow> thrown" where
  "nullReadError key =
     JsError (jstr ''TypeError'')
       (jstr ''Cannot read properties of null (reading '' @ [39] @ key @ [39] @ jstr '')'')"

subsection \<open>Validation of the response\<close>

text \<open>
  The callback of \<open>item.options.every\<close>:
  \<open>typeof opt.text === 'string' && typeof opt.score === 'number'\<close>. It reads
  \<open>opt.text\<close> first, which throws when \<open>opt\<close> is \<open>null\<close>.
\<close>

definition validOption :: "json \<Rightarrow> thrown + bool" where
  "validOption opt =
     (if opt = JNull then Inl (nullReadError (jstr ''text''))
      else Inr (isString (get_prop opt (jstr ''text'')) \<and> isNumber (get_prop opt (jstr ''score''))))"

text \<open>\<open>every\<close> stops at the first element for which the callback is false.\<close>

fun every_validOption :: "json list \<Rightarrow> thrown + bool" where
  "every_validOption [] = Inr True"
| "every_validOption (opt # opts) =
     (case validOption opt of
        Inl e \<Rightarrow> Inl e
      | Inr ok \<Rightarrow> if ok then every_validOption opts else Inr False)"

text \<open>
  The condition of the loop body:
  \<open>item && typeof item.questionId === 'number' && Array.isArray(item.options) &&
  item.options.every(...)\<close>.
\<close>

definition validItem :: "json \<Rightarrow> thrown + bool" where
  "validItem item =
     (if \<not> truthy item then Inr False
      else if \<not> isNumber (get_prop item (jstr ''questionId'')) then Inr False
      else if \<not> isArray (get_prop item (jstr ''options'')) then Inr False
      else every_validOption (the_array (get_prop item (jstr ''options''))))"

datatype ConsoleEntry =
    WarnInvalidItem json
  | WarnCount nat nat
  | ConsoleError thrown

text \<open>
  The loop \<open>for (const item of results)\<close>: a valid item is stored with
  \<open>optionsMap.set(item.questionId, item.options)\<close>, an invalid one is reported with
  \<open>console.warn\<close>, an exception leaves the loop.
\<close>

fun collectOptions ::
  "json list \<Rightarrow> (int \<times> json list) list \<Rightarrow> ConsoleEntry list
     \<Rightarrow> (thrown + (int \<times> json list) list) \<times> ConsoleEntry list" where
  "collectOptions [] optionsMap console = (Inr optionsMap, console)"
| "collectOptions (item # items) optionsMap console =
     (case validItem item of
        Inl e \<Rightarrow> (Inl e, console)
      | Inr ok \<Rightarrow>
          if ok then
            collectOptions items
              (AList.update (the_number (get_prop item (jstr ''questionId'')))
                 (the_array (get_prop item (jstr ''options''))) optionsMap)
              console
          else collectOptions items optionsMap (console @ [WarnInvalidItem item]))"

text \<open>The entry that the loop stores for a valid item.\<close>

definition entryOf :: "json \<Rightarrow> int \<times> json list" where
  "entryOf item =
     (the_number (get_prop item (jstr ''questionId'')),
      the_array (get_prop item (jstr ''options'')))"

subsection \<open>String helpers\<close>

fun indexOf :: "jsstring \<Rightarrow> nat \<Rightarrow> int" where
  "indexOf [] c = - 1"
| "indexOf (x # xs) c =
     (if x = c then 0 else (let r = indexOf xs c in if r = - 1 then - 1 else r + 1))"

definition lastIndexOf :: "jsstring \<Rightarrow> nat \<Rightarrow> int" where
  "lastIndexOf str c =
     (let r = indexOf (rev str) c in if r = - 1 then - 1 else int (length str) - 1 - r)"

text \<open>
  \<open>substring(a, b)\<close> clamps both arguments to \<open>[0, length]\<close> and swaps them when the
  first is the larger.
\<close>

definition substring :: "jsstring \<Rightarrow> int \<Rightarrow> int \<Rightarrow> jsstring" where
  "substring str a b =
     (let a' = nat (min (max a 0) (int (length str)));
          b' = nat (min (max b 0) (int (length str)))
      in take (max a' b' - min a' b') (drop (min a' b') str))"

subsection \<open>The function\<close>

definition apiKeyMissingMessage :: jsstring where
  "apiKeyMissingMessage =
     [65, 80, 73, 45, 1082, 1083, 1102, 1095, 32, 1085, 1077, 32, 1087, 1088, 1077, 1076,
      1086, 1089, 1090, 1072, 1074, 1083, 1077, 1085, 46, 32, 1059, 1073, 1077, 1076, 1080,
      1090, 1077, 1089, 1100, 44, 32, 1095, 1090, 1086, 32, 1087, 1077, 1088, 1077, 1084,
      1077, 1085, 1085, 1072, 1103, 32, 1086, 1082, 1088, 1091, 1078, 1077, 1085, 1080, 1103,
      32, 65, 80, 73, 95, 75, 69, 89, 32, 1091, 1089, 1090, 1072, 1085, 1086, 1074, 1083,
      1077, 1085, 1072, 46]"

text \<open>
  The extraction of the JSON array from the response text: from the first \<open>[\<close> to the
  last \<open>]\<close> when both occur.
\<close>

definition cleanJsonText :: "jsstring \<Rightarrow> jsstring" where
  "cleanJsonText jsonText =
     (let start = indexOf jsonText 91;
          end' = lastIndexOf jsonText 93
      in if start \<noteq> - 1 \<and> end' \<noteq> - 1 then substring jsonText start (end' + 1)
         else jsonText)"

definition syntaxError :: thrown where
  "syntaxError = JsError (jstr ''SyntaxError'') (jstr ''Unexpected token in JSON'')"

text \<open>
  The body of the \<open>try\<close> block. \<open>generateContent k\<close> is the way the \<open>k\<close>-th request to
  the remote model settles, with the \<open>text\<close> of the response (\<open>None\<close> when it is
  undefined); \<open>JSON_parse\<close> is \<open>JSON.parse\<close>, \<open>None\<close> standing for its \<open>SyntaxError\<close>.
\<close>

definition batchTry ::
  "(jsstring \<Rightarrow> json option) \<Rightarrow> (nat \<Rightarrow> thrown + jsstring option) \<Rightarrow> (nat \<Rightarrow> rat)
     \<Rightarrow> (int \<times> jsstring) list
     \<Rightarrow> (thrown + (int \<times> json list) list) \<times> ConsoleEntry list" where
  "batchTry JSON_parse generateContent rnd questions =
     (case fst (withRetry generateContent rnd default_maxRetries default_initialDelay) of
        Inl e \<Rightarrow> (Inl e, [])
      | Inr response_text \<Rightarrow>
          let jsonText = (case response_text of
                            None \<Rightarrow> []
                          | Some txt \<Rightarrow> if txt \<noteq> [] then trim txt else [])
          in if jsonText = [] then (Inl (newError (jstr ''Received empty response from API'')), [])
             else
               case JSON_parse (cleanJsonText jsonText) of
                    None \<Rightarrow> (Inl syntaxError, [])
                  | Some (JArr results) \<Rightarrow>
                      (case collectOptions results [] [] of
                         (Inl e, console) \<Rightarrow> (Inl e, console)
                       | (Inr optionsMap, console) \<Rightarrow>
                           (Inr optionsMap,
                            if length optionsMap \<noteq> length questions
                            then console @ [WarnCount (length questions) (length optionsMap)]
                            else console))
                  | Some other \<Rightarrow> (Inl (newError (jstr ''API response is not an array.'')), []))"

definition generateBatchQuestionOptions ::
  "Translations \<Rightarrow> (jsstring \<Rightarrow> json option) \<Rightarrow> (nat \<Rightarrow> thrown + jsstring option) \<Rightarrow> (nat \<Rightarrow> rat)
     \<Rightarrow> jsstring option \<Rightarrow> (int \<times> jsstring) list \<Rightarrow> Language
     \<Rightarrow> (thrown + (int \<times> json list) list) \<times> ConsoleEntry list" where
  "generateBatchQuestionOptions translations JSON_parse generateContent rnd apiKey questions lang =
     (if length questions = 0 then (Inr [], [])
      else if or_else apiKey [] = [] then (Inl (newError apiKeyMissingMessage), [])
      else
        (case batchTry JSON_parse generateContent rnd questions of
           (Inr optionsMap, console) \<Rightarrow> (Inr optionsMap, console)
         | (Inl e, console) \<Rightarrow>
             (Inl (if err_name e = jstr ''SyntaxError''
                   then newError (t translations (jstr ''error_json_parse'') lang)
                   else newError (t translations (jstr ''error_api_generation'') lang)),
              console @ [ConsoleError e])))"

text \<open>
  The merge into the cache after a fetch:
  \<open>generatedOptionsMap.forEach((opts, id) => newCache.set(id, opts))\<close>. The cache is typed
  \<open>Map<number, GeneratedOption[]>\<close>; \<open>asGeneratedOption\<close> is the view of a stored object
  through that type.
\<close>

definition asGeneratedOption :: "json \<Rightarrow> GeneratedOption" where
  "asGeneratedOption opt =
     \<lparr>o_text = the_string (get_prop opt (jstr ''text'')),
      o_score = the_number (get_prop opt (jstr ''score''))\<rparr>"

definition mergeOptions ::
  "(int \<times> json list) list \<Rightarrow> (int \<times> GeneratedOption list) list
     \<Rightarrow> (int \<times> GeneratedOption list) list" where
  "mergeOptions generatedOptionsMap prev =
     foldl (\<lambda>newCache (qid, opts). AList.update qid (map asGeneratedOption opts) newCache)
       prev generatedOptionsMap"

text \<open>Concrete responses used in the evaluations below.\<close>

definition optionObj :: "string \<Rightarrow> int \<Rightarrow> json" where
  "optionObj txt n = JObj [(jstr ''text'', JStr (jstr txt)), (jstr ''score'', JNum n)]"

definition itemObj :: "int \<Rightarrow> json list \<Rightarrow> json" where
  "itemObj qid opts = JObj [(jstr ''questionId'', JNum qid), (jstr ''options'', JArr opts)]"

definition respondsWith :: "jsstring \<Rightarrow> nat \<Rightarrow> thrown + jsstring option" where
  "respondsWith txt k = Inr (Some txt)"

definition parsesTo :: "json \<Rightarrow> jsstring \<Rightarrow> json option" where
  "parsesTo v txt = Some v"

definition twoQuestions :: "(int \<times> jsstring) list" where
  "twoQuestions = [(1, jstr ''Q1''), (2, jstr ''Q2'')]"

definition duplicateResponse :: "json list" where
  "duplicateResponse =
     [itemObj 1 [optionObj ''first'' 1], itemObj 1 [optionObj ''second'' 2]]"

definition nullOptionResponse :: "json list" where
  "nullOptionResponse = [itemObj 1 [optionObj ''fine'' 3], itemObj 2 [JNull]]"

definition mixedResponse :: "json list" where
  "mixedResponse =
     [itemObj 1 [optionObj ''fine'' 3], JNull, JObj [(jstr ''questionId'', JStr (jstr ''2''))]]"

definition otherIdResponse :: "json list" where
  "otherIdResponse = [itemObj 1 [optionObj ''fine'' 3], itemObj 3 [optionObj ''stray'' 2]]"

definition score7Response :: "json list" where
  "score7Response = [itemObj 1 [optionObj ''beyond'' 7], itemObj 2 [optionObj ''below'' (- 1)]]"

section \<open>\<open>JSON.stringify\<close> and \<open>btoa\<close>\<close>

text \<open>
  \<open>JSON.stringify\<close> on the values this program serializes: integers as
  \<open>Number.prototype.toString\<close> prints them, strings
  quoted with the escapes of ECMAScript (\<open>QuoteJSONString\<close>: the quote, the backslash,
  the control characters and lone surrogates are escaped, everything else is copied),
  arrays and objects without white space.
\<close>

function showDigits :: "int \<Rightarrow> jsstring" where
  "showDigits i =
     (if i < 10 then [nat (48 + i)] else showDigits (i div 10) @ [nat (48 + i mod 10)])"
  by pat_completeness auto
termination
  by (relation "measure nat") auto

declare showDigits.simps [simp del]

text \<open>
  \<open>Number.prototype.toString\<close> on an integer: all digits when there are at most 21 of
  them, and the exponent form \<open>d.ddde+n\<close>, whose mantissa has no trailing zeros, from
  \<open>10^21\<close> on.
\<close>

definition exponentForm :: "jsstring \<Rightarrow> jsstring" where
  "exponentForm digits =
     (case rev (dropWhile (\<lambda>c. c = 48) (rev digits)) of
        [] \<Rightarrow> digits
      | d # ds \<Rightarrow>
          [d] @ (if ds = [] then [] else 46 # ds) @ jstr ''e+''
          @ showDigits (int (length digits) - 1))"

definition showMagnitude :: "int \<Rightarrow> jsstring" where
  "showMagnitude i =
     (let digits = showDigits i
      in if length digits \<le> 21 then digits else exponentForm digits)"

definition showInt :: "int \<Rightarrow> jsstring" where
  "showInt i = (if i < 0 then 45 # showMagnitude (- i) else showMagnitude i)"

definition hexDigit :: "nat \<Rightarrow> nat" where
  "hexDigit d = (if d < 10 then 48 + d else 87 + d)"

definition unicodeEscape :: "nat \<Rightarrow> jsstring" where
  "unicodeEscape c =
     [92, 117, hexDigit (c div 4096 mod 16), hexDigit (c div 256 mod 16),
      hexDigit (c div 16 mod 16), hexDigit (c mod 16)]"

definition isHighSurrogate :: "nat \<Rightarrow> bool" where
  "isHighSurrogate c = (55296 \<le> c \<and> c \<le> 56319)"

definition isLowSurrogate :: "nat \<Rightarrow> bool" where
  "isLowSurrogate c = (56320 \<le> c \<and> c \<le> 57343)"

definition escapeUnit :: "nat \<Rightarrow> jsstring" where
  "escapeUnit c =
     (if c = 34 then [92, 34]
      else if c = 92 then [92, 92]
      else if c = 8 then [92, 98]
      else if c = 12 then [92, 102]
      else if c = 10 then [92, 110]
      else if c = 13 then [92, 114]
      else if c = 9 then [92, 116]
      else if c < 32 \<or> isLowSurrogate c then unicodeEscape c
      else [c])"

fun quoteChars :: "jsstring \<Rightarrow> jsstring" where
  "quoteChars [] = []"
| "quoteChars [c] = (if isHighSurrogate c then unicodeEscape c else escapeUnit c)"
| "quoteChars (c # d # cs) =
     (if isHighSurrogate c then
        (if isLowSurrogate d then c # d # quoteChars cs
         else unicodeEscape c @ quoteChars (d # cs))
      else escapeUnit c @ quoteChars (d # cs))"

definition quoteJSONString :: "jsstring \<Rightarrow> jsstring" where
  "quoteJSONString str = [34] @ quoteChars str @ [34]"

fun join :: "jsstring \<Rightarrow> jsstring list \<Rightarrow> jsstring" where
  "join sep [] = []"
| "join sep [x] = x"
| "join sep (x # y # ys) = x @ sep @ join sep (y # ys)"

fun stringify :: "json \<Rightarrow> jsstring" where
  "stringify JNull = jstr ''null''"
| "stringify (JBool b) = (if b then jstr ''true'' else jstr ''false'')"
| "stringify (JNum n) = showInt n"
| "stringify (JStr str) = quoteJSONString str"
| "stringify (JArr xs) = [91] @ join [44] (map stringify xs) @ [93]"
| "stringify (JObj kvs) =
     [123] @ join [44] (map (\<lambda>kv. quoteJSONString (fst kv) @ [58] @ stringify (snd kv)) kvs) @ [125]"

text \<open>An answer, and the entry list \<open>Array.from(answers.entries())\<close>, as JSON values.\<close>

definition answerJson :: "Answer \<Rightarrow> json" where
  "answerJson a =
     JObj [(jstr ''questionId'', JNum (questionId a)), (jstr ''score'', JNum (score a)),
           (jstr ''optionText'', JStr (optionText a)), (jstr ''remark'', JStr (remark a))]"

definition entriesJson :: "(int \<times> Answer) list \<Rightarrow> json" where
  "entriesJson entries = JArr (map (\<lambda>(k, a). JArr [JNum k, answerJson a]) entries)"

text \<open>
  \<open>btoa\<close> throws an \<open>InvalidCharacterError\<close> when the string has a code unit above 255,
  and is the Base64 encoding of the code units as bytes otherwise.
\<close>

definition base64Char :: "nat \<Rightarrow> nat" where
  "base64Char i =
     (if i < 26 then 65 + i
      else if i < 52 then 71 + i
      else if i < 62 then i - 4
      else if i = 62 then 43
      else 47)"

fun base64Encode :: "nat list \<Rightarrow> jsstring" where
  "base64Encode [] = []"
| "base64Encode [a] = [base64Char (a div 4), base64Char (a mod 4 * 16), 61, 61]"
| "base64Encode [a, b] =
     [base64Char (a div 4), base64Char (a mod 4 * 16 + b div 16), base64Char (b mod 16 * 4), 61]"
| "base64Encode (a # b # c # bytes) =
     [base64Char (a div 4), base64Char (a mod 4 * 16 + b div 16),
      base64Char (b mod 16 * 4 + c div 64), base64Char (c mod 64)] @ base64Encode bytes"

definition invalidCharacterError :: thrown where
  "invalidCharacterError =
     JsError (jstr ''InvalidCharacterError'')
       (jstr ''The string to be encoded contains characters outside of the Latin1 range.'')"

definition btoa :: "jsstring \<Rightarrow> thrown + jsstring" where
  "btoa str = (if list_ex (\<lambda>c. 255 < c) str then Inl invalidCharacterError
               else Inr (base64Encode str))"

section \<open>The results page (Results.tsx)\<close>

text \<open>
  \<open>handleShare\<close>, up to the URL it hands to \<open>navigator.share\<close> or to the clipboard.
  \<open>worldviewImageUrl || null\<close> is \<open>null\<close> for an absent or empty URL. \<open>btoa\<close> is called
  outside any \<open>try\<close>, so its exception leaves the handler.
\<close>

definition dataToShare :: "(int \<times> Answer) list \<Rightarrow> jsstring option \<Rightarrow> json" where
  "dataToShare answers' worldviewImageUrl =
     JObj [(jstr ''answers'', entriesJson answers'),
           (jstr ''worldviewImageUrl'',
            (case worldviewImageUrl of
               None \<Rightarrow> JNull
             | Some url \<Rightarrow> if url = [] then JNull else JStr url))]"

definition handleShare ::
  "jsstring \<Rightarrow> jsstring \<Rightarrow> (int \<times> Answer) list \<Rightarrow> jsstring option \<Rightarrow> thrown + jsstring" where
  "handleShare origin pathname answers' worldviewImageUrl =
     (let jsonString = stringify (dataToShare answers' worldviewImageUrl)
      in case btoa jsonString of
           Inl e \<Rightarrow> Inl e
         | Inr encodedData \<Rightarrow> Inr (origin @ pathname @ jstr ''?r='' @ encodedData))"

text \<open>
  The saved results in local storage (key \<open>quizSavedResults\<close>): absent, holding text
  that parses to an array, or holding something on which both \<open>try\<close> blocks throw (text
  that does not parse, or that parses to a value without \<open>some\<close> and \<open>push\<close>). The
  view is the props and state of the \<open>Results\<close> component together with that entry.
\<close>

datatype StoredResults = Absent | Unusable | Stored "json list"

record ResultsView =
  rv_answers :: "(int \<times> Answer) list"
  rv_worldviewImageUrl :: "jsstring option"
  rv_language :: Language
  isSaved :: bool
  saveButtonText :: jsstring
  quizSavedResults :: StoredResults

text \<open>A \<open>SavedResult\<close> as the JSON value that is stored.\<close>

definition savedResultJson :: "SavedResult \<Rightarrow> json" where
  "savedResultJson res =
     JObj [(jstr ''timestamp'', JNum (timestamp res)),
           (jstr ''answers'', entriesJson (sr_answers res)),
           (jstr ''worldviewImageUrl'',
            (case sr_worldviewImageUrl res of None \<Rightarrow> JNull | Some url \<Rightarrow> JStr url))]"

text \<open>
  \<open>savedResults.some(res => JSON.stringify(res.answers) === currentAnswersString)\<close>:
  it stops at the first match; reading \<open>res.answers\<close> throws when \<open>res\<close> is \<open>null\<close>;
  \<open>JSON.stringify(undefined)\<close> is \<open>undefined\<close>, which equals no string.
\<close>

fun someAlreadySaved :: "jsstring \<Rightarrow> json list \<Rightarrow> thrown + bool" where
  "someAlreadySaved currentAnswersString [] = Inr False"
| "someAlreadySaved currentAnswersString (res # savedResults) =
     (if res = JNull then Inl (nullReadError (jstr ''answers''))
      else if (case get_prop res (jstr ''answers'') of
                 None \<Rightarrow> False
               | Some stored \<Rightarrow> stringify stored = currentAnswersString)
      then Inr True
      else someAlreadySaved currentAnswersString savedResults)"

text \<open>
  The effect that runs when the component is mounted and when \<open>answers\<close> or \<open>language\<close>
  change. An exception in its \<open>try\<close> block is logged and leaves the state as it is.
\<close>

definition alreadySavedEffect :: "Translations \<Rightarrow> ResultsView \<Rightarrow> ResultsView" where
  "alreadySavedEffect translations v =
     (case quizSavedResults v of
        Unusable \<Rightarrow> v
      | stored \<Rightarrow>
          let savedResults = (case stored of Stored rs \<Rightarrow> rs | other \<Rightarrow> []);
              currentAnswersString = stringify (entriesJson (rv_answers v))
          in case someAlreadySaved currentAnswersString savedResults of
               Inl e \<Rightarrow> v
             | Inr alreadySaved \<Rightarrow>
                 if alreadySaved
                 then v\<lparr>isSaved := True,
                        saveButtonText :=
                          t translations (jstr ''results_saved_button'') (rv_language v)\<rparr>
                 else v\<lparr>isSaved := False,
                        saveButtonText :=
                          t translations (jstr ''save_results_button'') (rv_language v)\<rparr>)"

text \<open>
  \<open>handleSaveResults\<close>; \<open>now\<close> is \<open>Date.now()\<close>, and \<open>quotaExceeded\<close> tells whether
  \<open>localStorage.setItem\<close> throws.
\<close>

definition handleSaveResults :: "Translations \<Rightarrow> int \<Rightarrow> bool \<Rightarrow> ResultsView \<Rightarrow> ResultsView" where
  "handleSaveResults translations now quotaExceeded v =
     (if isSaved v then v
      else
        (case quizSavedResults v of
           Unusable \<Rightarrow>
             v\<lparr>saveButtonText := t translations (jstr ''save_results_error'') (rv_language v)\<rparr>
         | stored \<Rightarrow>
             let savedResults = (case stored of Stored rs \<Rightarrow> rs | other \<Rightarrow> []);
                 newResult =
                   \<lparr>timestamp = now, sr_answers = rv_answers v,
                    sr_worldviewImageUrl =
                      (case rv_worldviewImageUrl v of
                         None \<Rightarrow> None
                       | Some url \<Rightarrow> if url = [] then None else Some url)\<rparr>
             in if quotaExceeded
                then v\<lparr>saveButtonText := t translations (jstr ''save_results_error'') (rv_language v)\<rparr>
                else v\<lparr>quizSavedResults := Stored (savedResults @ [savedResultJson newResult]),
                       isSaved := True,
                       saveButtonText :=
                         t translations (jstr ''results_saved_button'') (rv_language v)\<rparr>))"

text \<open>Concrete inputs used in the evaluations below.\<close>

definition russianAnswer :: Answer where
  "russianAnswer = \<lparr>questionId = 1, score = 3, optionText = [1044, 1072], remark = []\<rparr>"

definition customAnswer :: Answer where
  "customAnswer =
     \<lparr>questionId = 9, score = 0, optionText = jstr ''Own answer'', remark = jstr ''it depends''\<rparr>"

definition earlierResult :: SavedResult where
  "earlierResult =
     \<lparr>timestamp = 1700000000000, sr_answers = [(5, sampleAnswer)], sr_worldviewImageUrl = None\<rparr>"

definition earlierRun :: SavedResult where
  "earlierRun =
     \<lparr>timestamp = 1700000000000, sr_answers = [(5, sampleAnswer), (9, customAnswer)],
      sr_worldviewImageUrl = None\<rparr>"

definition freshView :: ResultsView where
  "freshView =
     \<lparr>rv_answers = [(5, sampleAnswer)], rv_worldviewImageUrl = None, rv_language = En,
      isSaved = False, saveButtonText = [], quizSavedResults = Absent\<rparr>"

definition returningView :: ResultsView where
  "returningView =
     \<lparr>rv_answers = [(5, sampleAnswer)], rv_worldviewImageUrl = None, rv_language = En,
      isSaved = False, saveButtonText = [],
      quizSavedResults = Stored [savedResultJson earlierResult]\<rparr>"

text \<open>The same two answers as in \<open>earlierRun\<close>, given in the other order.\<close>

definition reorderedView :: ResultsView where
  "reorderedView =
     \<lparr>rv_answers = [(9, customAnswer), (5, sampleAnswer)], rv_worldviewImageUrl = None,
      rv_language = En, isSaved = False, saveButtonText = [],
      quizSavedResults = Stored [savedResultJson earlierRun]\<rparr>"

section \<open>Facts about the retry wrapper\<close>

lemma error429_rate_limit: "isRateLimitError error429"
  by (simp add: isRateLimitError_def error429_def newError_def toString_def jstr_def)

lemma errorNetwork_not_rate_limit: "\<not> isRateLimitError errorNetwork"
  by (simp add: isRateLimitError_def errorNetwork_def newError_def toString_def jstr_def)

lemma maxRetriesError_not_rate_limit: "\<not> isRateLimitError maxRetriesError"
  by (simp add: isRateLimitError_def maxRetriesError_def newError_def toString_def jstr_def)

lemma error429_neq_maxRetriesError: "error429 \<noteq> maxRetriesError"
  by (simp add: error429_def maxRetriesError_def newError_def jstr_def)

text \<open>The four ways one round of the loop can go.\<close>

lemma withRetry_loop_resolved:
  "int attempt < maxRetries \<Longrightarrow> apiCall (invocations lg) = Inr v \<Longrightarrow>
   withRetry_loop apiCall rnd maxRetries initialDelay attempt lg
     = (Inr v, lg\<lparr>invocations := Suc (invocations lg)\<rparr>)"
  by (subst withRetry_loop.simps) simp

lemma withRetry_loop_retry:
  "int attempt < maxRetries - 1 \<Longrightarrow> apiCall (invocations lg) = Inl e \<Longrightarrow> isRateLimitError e \<Longrightarrow>
   withRetry_loop apiCall rnd maxRetries initialDelay attempt lg
     = withRetry_loop apiCall rnd maxRetries initialDelay (Suc attempt)
         (lg\<lparr>invocations := Suc (invocations lg),
             delays := delays lg @
               [initialDelay * 2 ^ (Suc attempt - 1) * (1 / 2 + rnd (length (delays lg)))]\<rparr>)"
  by (subst withRetry_loop.simps) simp

lemma withRetry_loop_rethrow:
  "int attempt < maxRetries \<Longrightarrow> apiCall (invocations lg) = Inl e \<Longrightarrow>
   \<not> (isRateLimitError e \<and> int attempt < maxRetries - 1) \<Longrightarrow>
   withRetry_loop apiCall rnd maxRetries initialDelay attempt lg
     = (Inl e, lg\<lparr>invocations := Suc (invocations lg)\<rparr>)"
  by (subst withRetry_loop.simps) auto

lemma withRetry_loop_exhausted:
  "\<not> int attempt < maxRetries \<Longrightarrow>
   withRetry_loop apiCall rnd maxRetries initialDelay attempt lg = (Inl maxRetriesError, lg)"
  by (subst withRetry_loop.simps) simp

text \<open>
  While every invocation is rejected with a rate-limit error, the loop started at
  \<open>attempt < maxRetries\<close> runs through all remaining attempts and ends by re-throwing the
  error of the last one.
\<close>

lemma withRetry_loop_all_rate_limited:
  assumes "\<And>k. \<exists>e. apiCall k = Inl e \<and> isRateLimitError e"
    and "int attempt < maxRetries"
  shows "fst (withRetry_loop apiCall rnd maxRetries initialDelay attempt lg)
           = apiCall (invocations lg + (nat maxRetries - 1 - attempt))
     \<and> invocations (snd (withRetry_loop apiCall rnd maxRetries initialDelay attempt lg))
           = invocations lg + (nat maxRetries - attempt)
     \<and> length (delays (snd (withRetry_loop apiCall rnd maxRetries initialDelay attempt lg)))
           = length (delays lg) + (nat maxRetries - 1 - attempt)"
  using assms(2)
proof (induction "nat maxRetries - attempt" arbitrary: attempt lg)
  case 0
  then show ?case by simp
next
  case (Suc n)
  obtain e where e: "apiCall (invocations lg) = Inl e" "isRateLimitError e"
    using assms(1) by blast
  show ?case
  proof (cases "int attempt < maxRetries - 1")
    case True
    define lg' where "lg' = lg\<lparr>invocations := Suc (invocations lg),
        delays := delays lg @
          [initialDelay * 2 ^ (Suc attempt - 1) * (1 / 2 + rnd (length (delays lg)))]\<rparr>"
    have n: "n = nat maxRetries - Suc attempt" using Suc.hyps(2) by simp
    have lt: "int (Suc attempt) < maxRetries" using True by simp
    note IH = Suc.hyps(1)[OF n lt, of lg']
    have step: "withRetry_loop apiCall rnd maxRetries initialDelay attempt lg
        = withRetry_loop apiCall rnd maxRetries initialDelay (Suc attempt) lg'"
      unfolding lg'_def
      by (rule withRetry_loop_retry[where apiCall = apiCall and lg = lg, OF True e])
    have a: "invocations lg' + (nat maxRetries - 1 - Suc attempt)
         = invocations lg + (nat maxRetries - 1 - attempt)"
      using True by (simp add: lg'_def)
    have b: "invocations lg' + (nat maxRetries - Suc attempt)
         = invocations lg + (nat maxRetries - attempt)"
      using True by (simp add: lg'_def)
    have c: "length (delays lg') + (nat maxRetries - 1 - Suc attempt)
         = length (delays lg) + (nat maxRetries - 1 - attempt)"
      using True by (simp add: lg'_def)
    show ?thesis
      unfolding step using IH by (simp only: a b c)
  next
    case False
    then have last: "nat maxRetries - 1 - attempt = 0" "nat maxRetries - attempt = 1"
      using Suc.prems by linarith+
    have "withRetry_loop apiCall rnd maxRetries initialDelay attempt lg =
       (Inl e, lg\<lparr>invocations := Suc (invocations lg)\<rparr>)"
      using e False Suc.prems by (simp add: withRetry_loop_rethrow)
    then show ?thesis using e last by simp
  qed
qed

section \<open>Claims about the retry wrapper\<close>

text \<open>
  C1. An operation whose first two invocations are rejected with a rate-limit-shaped error
  and whose third invocation resolves: \<open>withRetry\<close> with the default budget returns that
  value, and the operation has been invoked exactly 3 times, which is not more than the
  budget. This holds for every jitter and every initial delay.
\<close>

theorem withRetry_two_rate_limits_then_success:
  assumes "apiCall 0 = Inl e1" and "isRateLimitError e1"
    and "apiCall 1 = Inl e2" and "isRateLimitError e2"
    and "apiCall 2 = Inr v"
  shows "fst (withRetry apiCall rnd default_maxRetries initialDelay) = Inr v
       \<and> invocations (snd (withRetry apiCall rnd default_maxRetries initialDelay)) = 3
       \<and> int (invocations (snd (withRetry apiCall rnd default_maxRetries initialDelay)))
           \<le> default_maxRetries"
proof -
  have "withRetry apiCall rnd default_maxRetries initialDelay
      = (Inr v, \<lparr>invocations = 3,
           delays = [initialDelay * 2 ^ 0 * (1 / 2 + rnd 0),
                     initialDelay * 2 ^ 1 * (1 / 2 + rnd 1)]\<rparr>)"
    unfolding withRetry_def default_maxRetries_def
    using assms
    by (simp add: withRetry_loop_retry withRetry_loop_resolved numeral_2_eq_2 numeral_3_eq_3)
  then show ?thesis by (simp add: default_maxRetries_def)
qed

theorem withRetry_two_rate_limits_then_success_witness:
  "fst (withRetry twice429 rndHalf default_maxRetries default_initialDelay) = Inr 7
   \<and> invocations (snd (withRetry twice429 rndHalf default_maxRetries default_initialDelay)) = 3
   \<and> int (invocations (snd (withRetry twice429 rndHalf default_maxRetries default_initialDelay)))
       \<le> default_maxRetries"
  using withRetry_two_rate_limits_then_success
    [of twice429 error429 error429 7 rndHalf default_initialDelay]
  by (simp add: twice429_def error429_rate_limit)

text \<open>
  C2. An operation whose first invocation is rejected with an error that is not
  rate-limit-shaped: \<open>withRetry\<close> (with any budget of at least one attempt, so with the
  default one) re-throws that same error after exactly one invocation; it has slept no
  backoff delay.
\<close>

theorem withRetry_other_error_rethrown:
  assumes "apiCall 0 = Inl e" and "\<not> isRateLimitError e" and "1 \<le> maxRetries"
  shows "withRetry apiCall rnd maxRetries initialDelay
           = (Inl e, \<lparr>invocations = 1, delays = []\<rparr>)"
  using assms by (simp add: withRetry_def withRetry_loop_rethrow)

theorem withRetry_other_error_rethrown_witness:
  "withRetry alwaysNetwork rndHalf default_maxRetries default_initialDelay
     = (Inl errorNetwork, \<lparr>invocations = 1, delays = []\<rparr>)"
  using withRetry_other_error_rethrown
    [of alwaysNetwork errorNetwork default_maxRetries rndHalf default_initialDelay]
  by (simp add: alwaysNetwork_def errorNetwork_not_rate_limit default_maxRetries_def)

text \<open>
  C3, as stated, fails: when every invocation is rejected with a rate-limit error, the
  third rejection takes the \<open>else\<close> branch of the handler (\<open>attempt < maxRetries - 1\<close> is
  false) and the operation's own error is re-thrown; the statement after the loop that
  throws the "Max retries reached" error is not reached.
\<close>

theorem withRetry_exhaustion_counterexample:
  "fst (withRetry always429 rndHalf default_maxRetries default_initialDelay) = Inl error429
   \<and> fst (withRetry always429 rndHalf default_maxRetries default_initialDelay)
       \<noteq> Inl maxRetriesError"
  by (simp add: withRetry_def always429_def error429_rate_limit default_maxRetries_def
      error429_neq_maxRetriesError withRetry_loop_retry withRetry_loop_rethrow)

text \<open>
  C3, amended. When every invocation is rejected with a rate-limit-shaped error and the
  budget is at least one attempt, \<open>withRetry\<close> invokes the operation exactly \<open>maxRetries\<close>
  times, sleeps \<open>maxRetries - 1\<close> backoff delays, and then re-throws the error of the last
  invocation: the operation's own rate-limit error, which is not the "Max retries reached"
  error.
\<close>

theorem withRetry_exhaustion_rethrows_last_error:
  assumes "\<And>k. \<exists>e. apiCall k = Inl e \<and> isRateLimitError e" and "1 \<le> maxRetries"
  shows "fst (withRetry apiCall rnd maxRetries initialDelay) = apiCall (nat maxRetries - 1)
       \<and> fst (withRetry apiCall rnd maxRetries initialDelay) \<noteq> Inl maxRetriesError
       \<and> invocations (snd (withRetry apiCall rnd maxRetries initialDelay)) = nat maxRetries
       \<and> length (delays (snd (withRetry apiCall rnd maxRetries initialDelay)))
           = nat maxRetries - 1"
proof -
  have lt: "int 0 < maxRetries" using assms(2) by simp
  note L = withRetry_loop_all_rate_limited[OF assms(1) lt,
      where rnd = rnd and initialDelay = initialDelay
        and lg = "\<lparr>invocations = 0, delays = []\<rparr>"]
  obtain e where e: "apiCall (nat maxRetries - 1) = Inl e" "isRateLimitError e"
    using assms(1) by blast
  have ne: "apiCall (nat maxRetries - 1) \<noteq> Inl maxRetriesError"
    using e maxRetriesError_not_rate_limit by auto
  show ?thesis unfolding withRetry_def using L ne by simp
qed

theorem withRetry_exhaustion_rethrows_last_error_witness:
  "fst (withRetry always429 rndHalf default_maxRetries default_initialDelay) = Inl error429
   \<and> invocations (snd (withRetry always429 rndHalf default_maxRetries default_initialDelay)) = 3"
  using withRetry_exhaustion_rethrows_last_error
    [of always429 default_maxRetries rndHalf default_initialDelay]
  by (simp add: always429_def error429_rate_limit default_maxRetries_def)

section \<open>Facts about the shuffle\<close>

lemma random_index_le:
  assumes "0 \<le> (r::rat)" and "r < 1"
  shows "nat \<lfloor>r * (of_nat i + 1)\<rfloor> \<le> i"
proof -
  have pos: "(0::rat) < of_nat i + 1"
    by (simp add: add_nonneg_pos)
  have "r * (of_nat i + 1) < 1 * (of_nat i + 1)"
    using assms(2) pos by (rule mult_strict_right_mono)
  then have "r * (of_nat i + 1) < of_int (int i + 1)"
    by simp
  then have "\<lfloor>r * (of_nat i + 1)\<rfloor> < int i + 1"
    by (simp only: floor_less_iff)
  then show ?thesis by linarith
qed

lemma mset_shuffle_loop:
  assumes "\<And>k. 0 \<le> rnd k \<and> rnd k < 1"
  shows "i < length array \<Longrightarrow> mset (shuffle_loop rnd k i array) = mset array"
proof (induction i arbitrary: k array)
  case 0
  then show ?case by simp
next
  case (Suc i')
  define j where "j = nat \<lfloor>rnd k * (of_nat (Suc i') + 1)\<rfloor>"
  have j: "j \<le> Suc i'"
    unfolding j_def using assms[of k] by (intro random_index_le) auto
  then have jl: "j < length array" using Suc.prems by simp
  let ?swapped = "array[Suc i' := array ! j, j := array ! Suc i']"
  have sw: "mset ?swapped = mset array"
    using mset_swap[OF jl Suc.prems] .
  have "i' < length ?swapped" using Suc.prems by simp
  then have "mset (shuffle_loop rnd (Suc k) i' ?swapped) = mset ?swapped"
    by (rule Suc.IH)
  moreover have "shuffle_loop rnd k (Suc i') array = shuffle_loop rnd (Suc k) i' ?swapped"
    unfolding j_def by (simp add: Let_def)
  ultimately show ?case using sw by simp
qed

lemma mset_shuffle:
  assumes "\<And>k. 0 \<le> rnd k \<and> rnd k < 1"
  shows "mset (shuffle rnd array) = mset array"
proof (cases array)
  case Nil
  then show ?thesis by (simp add: shuffle_def)
next
  case (Cons x xs)
  then show ?thesis unfolding shuffle_def by (intro mset_shuffle_loop[OF assms]) simp
qed

lemma length_initialQuestions: "length initialQuestions = 140"
  by (simp add: initialQuestions_def questionCategoriesStructure_def)

section \<open>Claim about starting the quiz\<close>

text \<open>
  C5. Whatever the state before, after \<open>handleStartQuiz\<close> the answers map is empty, the
  options cache is empty, the worldview image history is empty, the \<open>quizProgress\<close> entry
  of local storage is removed, the current question index is 0, and \<open>shuffledQuestions\<close>
  is a permutation of the initial list of 140 questions (\<open>Math.random()\<close> returning
  numbers in \<open>[0, 1)\<close>).
\<close>

theorem handleStartQuiz_resets:
  assumes "\<And>k. 0 \<le> rnd k \<and> rnd k < 1"
  shows "answers (handleStartQuiz rnd s) = []
       \<and> optionsCache (handleStartQuiz rnd s) = []
       \<and> worldviewImageHistory (handleStartQuiz rnd s) = []
       \<and> stored_quizProgress (handleStartQuiz rnd s) = None
       \<and> currentQuestionIndex (handleStartQuiz rnd s) = 0
       \<and> mset (shuffledQuestions (handleStartQuiz rnd s)) = mset initialQuestions
       \<and> length (shuffledQuestions (handleStartQuiz rnd s)) = 140"
proof -
  have m: "mset (shuffle rnd initialQuestions) = mset initialQuestions"
    by (rule mset_shuffle[OF assms])
  then have "length (shuffle rnd initialQuestions) = length initialQuestions"
    by (rule mset_eq_length)
  then show ?thesis using m by (simp add: handleStartQuiz_def length_initialQuestions)
qed

theorem handleStartQuiz_resets_witness:
  "answers (handleStartQuiz rndHalf midQuiz) = []
   \<and> optionsCache (handleStartQuiz rndHalf midQuiz) = []
   \<and> worldviewImageHistory (handleStartQuiz rndHalf midQuiz) = []
   \<and> stored_quizProgress (handleStartQuiz rndHalf midQuiz) = None
   \<and> currentQuestionIndex (handleStartQuiz rndHalf midQuiz) = 0
   \<and> mset (shuffledQuestions (handleStartQuiz rndHalf midQuiz)) = mset initialQuestions
   \<and> answers midQuiz \<noteq> []"
  using handleStartQuiz_resets[of rndHalf midQuiz]
  by (simp add: rndHalf_def midQuiz_def)

section \<open>Claim about the question card\<close>

lemma trim_spaces: "trim (jstr ''   '') = []"
  by (simp add: trim_def jstr_def isWhiteSpace_def)

lemma trim_padded: "trim (jstr '' my view '') = jstr ''my view''"
  by (simp add: trim_def jstr_def isWhiteSpace_def)

text \<open>
  C9. \<open>handleNext\<close> with no option selected. If the remark is not empty after trimming,
  the card submits one answer for the current question, with score 0, the localized
  custom-answer text and the trimmed remark, and then calls \<open>onNext\<close>: in the application
  the answer is stored under the question's id and the quiz advances (to the next index,
  or to the results after the last question). If the trimmed remark is empty, the card
  only shows an alert: nothing is submitted and the state of the quiz is unchanged.
\<close>

theorem handleNext_without_selection:
  "(trim remark' \<noteq> [] \<longrightarrow>
      handleNext translations language question None remark'
        = [OnAnswer \<lparr>questionId = q_id question, score = 0,
                     optionText = t translations (jstr ''custom_answer_text'') language,
                     remark = trim remark'\<rparr>,
           OnNext]
    \<and> clickNext translations language question None remark' s
        = handleNextQuestion (handleAnswer
            \<lparr>questionId = q_id question, score = 0,
             optionText = t translations (jstr ''custom_answer_text'') language,
             remark = trim remark'\<rparr> s)
    \<and> map_of (answers (clickNext translations language question None remark' s)) (q_id question)
        = Some \<lparr>questionId = q_id question, score = 0,
                optionText = t translations (jstr ''custom_answer_text'') language,
                remark = trim remark'\<rparr>
    \<and> (if currentQuestionIndex s < int (length (shuffledQuestions s)) - 1
        then currentQuestionIndex (clickNext translations language question None remark' s)
               = currentQuestionIndex s + 1
        else appState (clickNext translations language question None remark' s) = Results))
 \<and> (trim remark' = [] \<longrightarrow>
      handleNext translations language question None remark'
        = [Alert (t translations (jstr ''alert_select_option'') language)]
    \<and> clickNext translations language question None remark' s = s)"
  by (simp add: handleNext_def clickNext_def handleAnswer_def handleNextQuestion_def
      update_conv')

theorem handleNext_without_selection_witness:
  "map_of (answers (clickNext noTranslations En question5 None (jstr '' my view '') midQuiz)) 5
     = Some \<lparr>questionId = 5, score = 0, optionText = jstr ''[custom_answer_text]'',
             remark = jstr ''my view''\<rparr>
   \<and> currentQuestionIndex (clickNext noTranslations En question5 None (jstr '' my view '') midQuiz)
       = 2
   \<and> clickNext noTranslations En question5 None (jstr ''   '') midQuiz = midQuiz"
proof -
  have t1: "trim (jstr '' my view '') \<noteq> []"
    unfolding trim_padded by (simp add: jstr_def)
  have q: "q_id question5 = 5"
    by (simp add: question5_def)
  have tr: "t noTranslations (jstr ''custom_answer_text'') En = jstr ''[custom_answer_text]''"
    by (simp add: t_def or_else_def noTranslations_def jstr_def)
  have ix: "currentQuestionIndex midQuiz = 1" "int (length (shuffledQuestions midQuiz)) = 140"
    by (simp_all add: midQuiz_def length_initialQuestions)
  note A = handleNext_without_selection
      [of "jstr '' my view ''" noTranslations En question5 midQuiz, THEN conjunct1, rule_format, OF t1]
  note B = handleNext_without_selection
      [of "jstr ''   ''" noTranslations En question5 midQuiz, THEN conjunct2, rule_format,
       OF trim_spaces]
  have a: "map_of (answers (clickNext noTranslations En question5 None (jstr '' my view '') midQuiz)) 5
     = Some \<lparr>questionId = 5, score = 0, optionText = jstr ''[custom_answer_text]'',
             remark = jstr ''my view''\<rparr>"
    by (rule A[unfolded q tr trim_padded, THEN conjunct2, THEN conjunct2, THEN conjunct1])
  have b: "currentQuestionIndex (clickNext noTranslations En question5 None (jstr '' my view '') midQuiz)
       = 2"
    using A[THEN conjunct2, THEN conjunct2, THEN conjunct2] by (simp add: ix)
  show ?thesis using a b B by blast
qed

section \<open>Claim about the voice answer\<close>

lemma optionAt_out_of_range: "optionAt sampleOptions 2 = None"
  by (simp add: optionAt_def sampleOptions_def)

lemma optionAt_in_range: "optionAt sampleOptions 1 = Some \<lparr>o_text = jstr ''Yes'', o_score = 4\<rparr>"
  by (simp add: optionAt_def sampleOptions_def)

text \<open>Recording an answer commutes with speaking the farewell and with closing the modal.\<close>

lemma speak_handleAnswer:
  "speak h txt lang (handleAnswer a s) = handleAnswer a (speak h txt lang s)"
  by (simp add: speak_def handleAnswer_def)

lemma handleCloseVoiceModal_handleAnswer:
  "handleCloseVoiceModal (handleAnswer a s) = handleAnswer a (handleCloseVoiceModal s)"
  by (simp add: handleCloseVoiceModal_def handleAnswer_def closeSession_def
      cleanupAudioResources_def split: option.splits)

lemma answers_speak: "answers (speak h txt lang s) = answers s"
  by (simp add: speak_def)

lemma answers_handleCloseVoiceModal: "answers (handleCloseVoiceModal s) = answers s"
  by (simp add: handleCloseVoiceModal_def closeSession_def cleanupAudioResources_def
      split: option.splits)

lemma handleCloseVoiceModal_released:
  "\<not> isVoiceModalOpen (handleCloseVoiceModal s)
   \<and> chatHistory (handleCloseVoiceModal s) = []
   \<and> \<not> isAiSpeaking (handleCloseVoiceModal s)
   \<and> mediaStreamRef (handleCloseVoiceModal s) = None
   \<and> audioProcessorNodeRef (handleCloseVoiceModal s) = None
   \<and> mediaStreamSourceRef (handleCloseVoiceModal s) = None
   \<and> (inputAudioContextRef (handleCloseVoiceModal s) = None
        \<or> inputAudioContextRef (handleCloseVoiceModal s) = Some Closed)
   \<and> (outputAudioContextRef (handleCloseVoiceModal s) = None
        \<or> outputAudioContextRef (handleCloseVoiceModal s) = Some Closed)
   \<and> (liveSessionRef (handleCloseVoiceModal s) = None
        \<or> liveSessionRef (handleCloseVoiceModal s) = Some SessionClosed)"
  by (simp add: handleCloseVoiceModal_def closeSession_def cleanupAudioResources_def
      closeContext_def split: option.splits)

lemma onFunctionCall_submit:
  "fc_name fc = jstr ''submitAnswer'' \<Longrightarrow>
   onFunctionCall h language q opts s fc =
     (case optionAt opts (selectedOptionIndex fc) of
        None \<Rightarrow> (\<lambda>x. x)
      | Some opt \<Rightarrow> handleAnswer \<lparr>questionId = q_id q, score = o_score opt,
                                  optionText = o_text opt, remark = comment fc\<rparr>)
       (handleCloseVoiceModal
          (if farewell fc \<noteq> [] then speak h (farewell fc) language s else s))"
  by (simp add: onFunctionCall_def Let_def speak_handleAnswer handleCloseVoiceModal_handleAnswer
      split: option.splits)

text \<open>What closing the modal does to the outside world, in order.\<close>

lemma effects_speak:
  "effects (speak h txt lang s)
     = effects s @ (if isTtsEnabled s \<and> h \<and> txt \<noteq> []
                    then [SpeechCancel, SpeechSpeak txt (getSpeechLang lang)] else [])"
  by (simp add: speak_def)

lemma refs_speak:
  "liveSessionRef (speak h txt lang s) = liveSessionRef s"
  "mediaStreamRef (speak h txt lang s) = mediaStreamRef s"
  "audioProcessorNodeRef (speak h txt lang s) = audioProcessorNodeRef s"
  "mediaStreamSourceRef (speak h txt lang s) = mediaStreamSourceRef s"
  "inputAudioContextRef (speak h txt lang s) = inputAudioContextRef s"
  "outputAudioContextRef (speak h txt lang s) = outputAudioContextRef s"
  by (simp_all add: speak_def)

lemma effects_closeSession:
  "effects (closeSession s)
     = effects s @ (case liveSessionRef s of None \<Rightarrow> [] | Some session \<Rightarrow> [SessionClose])"
  by (simp add: closeSession_def split: option.splits)

lemma refs_closeSession:
  "mediaStreamRef (closeSession s) = mediaStreamRef s"
  "audioProcessorNodeRef (closeSession s) = audioProcessorNodeRef s"
  "mediaStreamSourceRef (closeSession s) = mediaStreamSourceRef s"
  "inputAudioContextRef (closeSession s) = inputAudioContextRef s"
  "outputAudioContextRef (closeSession s) = outputAudioContextRef s"
  by (simp_all add: closeSession_def split: option.splits)

lemma effects_cleanupAudioResources:
  "effects (cleanupAudioResources s)
     = effects s
       @ (case mediaStreamRef s of None \<Rightarrow> [] | Some tracks \<Rightarrow> map (\<lambda>track. TrackStop) tracks)
       @ (case audioProcessorNodeRef s of None \<Rightarrow> [] | Some node \<Rightarrow> [NodeDisconnect])
       @ (case mediaStreamSourceRef s of None \<Rightarrow> [] | Some node \<Rightarrow> [NodeDisconnect])
       @ (case inputAudioContextRef s of
            None \<Rightarrow> [] | Some ctx \<Rightarrow> if ctx \<noteq> Closed then [ContextClose] else [])
       @ (case outputAudioContextRef s of
            None \<Rightarrow> [] | Some ctx \<Rightarrow> if ctx \<noteq> Closed then [ContextClose] else [])"
  by (cases "inputAudioContextRef s"; cases "outputAudioContextRef s")
     (simp_all add: cleanupAudioResources_def closeContext_def)

lemma effects_handleCloseVoiceModal:
  "effects (handleCloseVoiceModal s)
     = effects s
       @ (case liveSessionRef s of None \<Rightarrow> [] | Some session \<Rightarrow> [SessionClose])
       @ (case mediaStreamRef s of None \<Rightarrow> [] | Some tracks \<Rightarrow> map (\<lambda>track. TrackStop) tracks)
       @ (case audioProcessorNodeRef s of None \<Rightarrow> [] | Some node \<Rightarrow> [NodeDisconnect])
       @ (case mediaStreamSourceRef s of None \<Rightarrow> [] | Some node \<Rightarrow> [NodeDisconnect])
       @ (case inputAudioContextRef s of
            None \<Rightarrow> [] | Some ctx \<Rightarrow> if ctx \<noteq> Closed then [ContextClose] else [])
       @ (case outputAudioContextRef s of
            None \<Rightarrow> [] | Some ctx \<Rightarrow> if ctx \<noteq> Closed then [ContextClose] else [])"
proof -
  define s0 where "s0 = s\<lparr>isVoiceModalOpen := False\<rparr>"
  have e: "effects (handleCloseVoiceModal s) = effects (cleanupAudioResources (closeSession s0))"
    by (simp add: handleCloseVoiceModal_def s0_def)
  have s0: "effects s0 = effects s" "liveSessionRef s0 = liveSessionRef s"
    "mediaStreamRef s0 = mediaStreamRef s" "audioProcessorNodeRef s0 = audioProcessorNodeRef s"
    "mediaStreamSourceRef s0 = mediaStreamSourceRef s"
    "inputAudioContextRef s0 = inputAudioContextRef s"
    "outputAudioContextRef s0 = outputAudioContextRef s"
    by (simp_all add: s0_def)
  show ?thesis
    unfolding e effects_cleanupAudioResources refs_closeSession effects_closeSession s0
    by simp
qed

text \<open>
  C10. A server message with one \<open>submitAnswer\<close> call whose \<open>selectedOptionIndex\<close> has no
  entry in the options of the current question: the answers map is unchanged; the modal
  is closed and the chat history is cleared; the audio resources are released, that is,
  after the farewell (if one is spoken) the session is closed, every track of the
  microphone stream is stopped, both nodes are disconnected and each open audio context
  is closed, in this order and with nothing else done, and the refs are left empty (or
  holding the closed session or an already closed context); and the resulting state is
  the one that any other \<open>submitAnswer\<close> call with the same farewell, for instance one
  with a valid index, leaves behind, up to the answers map.
\<close>

theorem submitAnswer_without_option:
  assumes "fc_name fc = jstr ''submitAnswer''"
    and "optionAt currentOptions (selectedOptionIndex fc) = None"
  shows "answers (onToolCall h language currentQuestion currentOptions [fc] s) = answers s
     \<and> onToolCall h language currentQuestion currentOptions [fc] s
         = handleCloseVoiceModal
             (if farewell fc \<noteq> [] then speak h (farewell fc) language s else s)
     \<and> \<not> isVoiceModalOpen (onToolCall h language currentQuestion currentOptions [fc] s)
     \<and> chatHistory (onToolCall h language currentQuestion currentOptions [fc] s) = []
     \<and> \<not> isAiSpeaking (onToolCall h language currentQuestion currentOptions [fc] s)
     \<and> effects (onToolCall h language currentQuestion currentOptions [fc] s)
         = effects s
           @ (if farewell fc \<noteq> [] \<and> isTtsEnabled s \<and> h
              then [SpeechCancel, SpeechSpeak (farewell fc) (getSpeechLang language)] else [])
           @ (case liveSessionRef s of None \<Rightarrow> [] | Some session \<Rightarrow> [SessionClose])
           @ (case mediaStreamRef s of
                None \<Rightarrow> [] | Some tracks \<Rightarrow> map (\<lambda>track. TrackStop) tracks)
           @ (case audioProcessorNodeRef s of None \<Rightarrow> [] | Some node \<Rightarrow> [NodeDisconnect])
           @ (case mediaStreamSourceRef s of None \<Rightarrow> [] | Some node \<Rightarrow> [NodeDisconnect])
           @ (case inputAudioContextRef s of
                None \<Rightarrow> [] | Some ctx \<Rightarrow> if ctx \<noteq> Closed then [ContextClose] else [])
           @ (case outputAudioContextRef s of
                None \<Rightarrow> [] | Some ctx \<Rightarrow> if ctx \<noteq> Closed then [ContextClose] else [])
     \<and> mediaStreamRef (onToolCall h language currentQuestion currentOptions [fc] s) = None
     \<and> audioProcessorNodeRef (onToolCall h language currentQuestion currentOptions [fc] s) = None
     \<and> mediaStreamSourceRef (onToolCall h language currentQuestion currentOptions [fc] s) = None
     \<and> (inputAudioContextRef (onToolCall h language currentQuestion currentOptions [fc] s) = None
          \<or> inputAudioContextRef (onToolCall h language currentQuestion currentOptions [fc] s)
              = Some Closed)
     \<and> (outputAudioContextRef (onToolCall h language currentQuestion currentOptions [fc] s) = None
          \<or> outputAudioContextRef (onToolCall h language currentQuestion currentOptions [fc] s)
              = Some Closed)
     \<and> (liveSessionRef (onToolCall h language currentQuestion currentOptions [fc] s) = None
          \<or> liveSessionRef (onToolCall h language currentQuestion currentOptions [fc] s)
              = Some SessionClosed)
     \<and> (\<forall>fc'. fc_name fc' = jstr ''submitAnswer'' \<and> farewell fc' = farewell fc \<longrightarrow>
           (onToolCall h language currentQuestion currentOptions [fc'] s)\<lparr>answers := answers s\<rparr>
             = onToolCall h language currentQuestion currentOptions [fc] s)"
proof -
  define base where "base = (if farewell fc \<noteq> [] then speak h (farewell fc) language s else s)"
  define closed where "closed = handleCloseVoiceModal base"
  have r: "onToolCall h language currentQuestion currentOptions [fc] s = closed"
    using assms by (simp add: onToolCall_def onFunctionCall_submit closed_def base_def)
  have a: "answers closed = answers s"
    by (simp add: closed_def base_def answers_handleCloseVoiceModal answers_speak)
  have same: "(onToolCall h language currentQuestion currentOptions [fc'] s)\<lparr>answers := answers s\<rparr>
      = closed"
    if "fc_name fc' = jstr ''submitAnswer''" and "farewell fc' = farewell fc" for fc'
  proof -
    have c: "onToolCall h language currentQuestion currentOptions [fc'] s =
        (case optionAt currentOptions (selectedOptionIndex fc') of
           None \<Rightarrow> (\<lambda>x. x)
         | Some opt \<Rightarrow> handleAnswer \<lparr>questionId = q_id currentQuestion, score = o_score opt,
                                     optionText = o_text opt, remark = comment fc'\<rparr>) closed"
      using that by (simp add: onToolCall_def onFunctionCall_submit closed_def base_def)
    have "(handleAnswer x closed)\<lparr>answers := answers s\<rparr> = closed" for x
      using a by (simp add: handleAnswer_def)
    moreover have "closed\<lparr>answers := answers s\<rparr> = closed"
      using a by simp
    ultimately show ?thesis
      unfolding c by (simp split: option.splits)
  qed
  have rel: "\<not> isVoiceModalOpen closed \<and> chatHistory closed = [] \<and> \<not> isAiSpeaking closed
     \<and> mediaStreamRef closed = None \<and> audioProcessorNodeRef closed = None
     \<and> mediaStreamSourceRef closed = None
     \<and> (inputAudioContextRef closed = None \<or> inputAudioContextRef closed = Some Closed)
     \<and> (outputAudioContextRef closed = None \<or> outputAudioContextRef closed = Some Closed)
     \<and> (liveSessionRef closed = None \<or> liveSessionRef closed = Some SessionClosed)"
    unfolding closed_def by (rule handleCloseVoiceModal_released)
  have eq: "closed = handleCloseVoiceModal
      (if farewell fc \<noteq> [] then speak h (farewell fc) language s else s)"
    by (simp add: closed_def base_def)
  have b: "effects base = effects s
      @ (if farewell fc \<noteq> [] \<and> isTtsEnabled s \<and> h
         then [SpeechCancel, SpeechSpeak (farewell fc) (getSpeechLang language)] else [])"
    "liveSessionRef base = liveSessionRef s" "mediaStreamRef base = mediaStreamRef s"
    "audioProcessorNodeRef base = audioProcessorNodeRef s"
    "mediaStreamSourceRef base = mediaStreamSourceRef s"
    "inputAudioContextRef base = inputAudioContextRef s"
    "outputAudioContextRef base = outputAudioContextRef s"
    by (simp_all add: base_def effects_speak refs_speak)
  have eff: "effects closed = effects s
      @ (if farewell fc \<noteq> [] \<and> isTtsEnabled s \<and> h
         then [SpeechCancel, SpeechSpeak (farewell fc) (getSpeechLang language)] else [])
      @ (case liveSessionRef s of None \<Rightarrow> [] | Some session \<Rightarrow> [SessionClose])
      @ (case mediaStreamRef s of
           None \<Rightarrow> [] | Some tracks \<Rightarrow> map (\<lambda>track. TrackStop) tracks)
      @ (case audioProcessorNodeRef s of None \<Rightarrow> [] | Some node \<Rightarrow> [NodeDisconnect])
      @ (case mediaStreamSourceRef s of None \<Rightarrow> [] | Some node \<Rightarrow> [NodeDisconnect])
      @ (case inputAudioContextRef s of
           None \<Rightarrow> [] | Some ctx \<Rightarrow> if ctx \<noteq> Closed then [ContextClose] else [])
      @ (case outputAudioContextRef s of
           None \<Rightarrow> [] | Some ctx \<Rightarrow> if ctx \<noteq> Closed then [ContextClose] else [])"
    unfolding closed_def effects_handleCloseVoiceModal b by simp
  show ?thesis
    unfolding r using a same rel eq eff by blast
qed

theorem submitAnswer_without_option_witness:
  "answers (onToolCall True En question5 sampleOptions [submitOutOfRange] midQuiz)
     = answers midQuiz
   \<and> \<not> isVoiceModalOpen (onToolCall True En question5 sampleOptions [submitOutOfRange] midQuiz)
   \<and> chatHistory (onToolCall True En question5 sampleOptions [submitOutOfRange] midQuiz) = []
   \<and> effects (onToolCall True En question5 sampleOptions [submitOutOfRange] midQuiz)
       = [SpeechCancel, SpeechSpeak (jstr ''Bye'') (jstr ''en-US''), SessionClose, TrackStop,
          NodeDisconnect, NodeDisconnect, ContextClose, ContextClose]
   \<and> mediaStreamRef (onToolCall True En question5 sampleOptions [submitOutOfRange] midQuiz) = None
   \<and> (onToolCall True En question5 sampleOptions [submitValid] midQuiz)
        \<lparr>answers := answers midQuiz\<rparr>
       = onToolCall True En question5 sampleOptions [submitOutOfRange] midQuiz"
proof -
  have 1: "fc_name submitOutOfRange = jstr ''submitAnswer''"
    by (simp add: submitOutOfRange_def)
  have 2: "optionAt sampleOptions (selectedOptionIndex submitOutOfRange) = None"
    by (simp add: submitOutOfRange_def optionAt_out_of_range)
  have 3: "fc_name submitValid = jstr ''submitAnswer''
      \<and> farewell submitValid = farewell submitOutOfRange"
    by (simp add: submitOutOfRange_def submitValid_def)
  note T = submitAnswer_without_option[OF 1 2, of True En question5 midQuiz]
  have 4: "effects midQuiz
      @ (if farewell submitOutOfRange \<noteq> [] \<and> isTtsEnabled midQuiz \<and> True
         then [SpeechCancel, SpeechSpeak (farewell submitOutOfRange) (getSpeechLang En)] else [])
      @ (case liveSessionRef midQuiz of None \<Rightarrow> [] | Some session \<Rightarrow> [SessionClose])
      @ (case mediaStreamRef midQuiz of
           None \<Rightarrow> [] | Some tracks \<Rightarrow> map (\<lambda>track. TrackStop) tracks)
      @ (case audioProcessorNodeRef midQuiz of None \<Rightarrow> [] | Some node \<Rightarrow> [NodeDisconnect])
      @ (case mediaStreamSourceRef midQuiz of None \<Rightarrow> [] | Some node \<Rightarrow> [NodeDisconnect])
      @ (case inputAudioContextRef midQuiz of
           None \<Rightarrow> [] | Some ctx \<Rightarrow> if ctx \<noteq> Closed then [ContextClose] else [])
      @ (case outputAudioContextRef midQuiz of
           None \<Rightarrow> [] | Some ctx \<Rightarrow> if ctx \<noteq> Closed then [ContextClose] else [])
     = [SpeechCancel, SpeechSpeak (jstr ''Bye'') (jstr ''en-US''), SessionClose, TrackStop,
        NodeDisconnect, NodeDisconnect, ContextClose, ContextClose]"
    by (simp add: midQuiz_def submitOutOfRange_def getSpeechLang_def jstr_def)
  have 5: "effects (onToolCall True En question5 sampleOptions [submitOutOfRange] midQuiz)
       = [SpeechCancel, SpeechSpeak (jstr ''Bye'') (jstr ''en-US''), SessionClose, TrackStop,
          NodeDisconnect, NodeDisconnect, ContextClose, ContextClose]"
    by (rule trans[OF T[THEN conjunct2, THEN conjunct2, THEN conjunct2, THEN conjunct2,
          THEN conjunct2, THEN conjunct1] 4])
  show ?thesis
    using T 3 5 by blast
qed

section \<open>Facts about the batched option fetch\<close>

text \<open>Repeated \<open>set\<close> on a map: the last value stored for a key is the one found.\<close>

lemma map_of_foldl_update:
  "map_of (foldl (\<lambda>m (k, v). AList.update k v m) m es) = map_of m ++ map_of (rev es)"
proof (induction es arbitrary: m)
  case Nil
  then show ?case by simp
next
  case (Cons e es)
  obtain k v where e: "e = (k, v)" by (cases e)
  have "map_of (foldl (\<lambda>m (k, v). AList.update k v m) (AList.update k v m) es)
      = map_of (AList.update k v m) ++ map_of (rev es)"
    by (rule Cons.IH)
  also have "\<dots> = map_of m ++ ([k \<mapsto> v] ++ map_of (rev es))"
    by (simp add: update_conv' map_add_def fun_eq_iff split: option.splits)
  finally show ?case by (simp add: e)
qed

lemma distinct_foldl_update:
  "distinct (map fst m) \<Longrightarrow> distinct (map fst (foldl (\<lambda>m (k, v). AList.update k v m) m es))"
  by (induction es arbitrary: m) (auto simp: distinct_update)

lemma set_update_subset: "set (AList.update k v al) \<subseteq> insert (k, v) (set al)"
  by (induction al) auto

text \<open>
  When no item makes the validation throw, the loop stores the valid items in order and
  warns once for each invalid item.
\<close>

lemma collectOptions_quiet:
  assumes "\<forall>item \<in> set items. \<exists>ok. validItem item = Inr ok"
  shows "collectOptions items optionsMap console =
     (Inr (foldl (\<lambda>m (k, v). AList.update k v m) optionsMap
             (map entryOf (filter (\<lambda>item. validItem item = Inr True) items))),
      console @ map WarnInvalidItem (filter (\<lambda>item. validItem item = Inr False) items))"
  using assms
proof (induction items arbitrary: optionsMap console)
  case Nil
  then show ?case by simp
next
  case (Cons item items)
  then obtain ok where ok: "validItem item = Inr ok" by auto
  have rest: "\<forall>item \<in> set items. \<exists>ok. validItem item = Inr ok" using Cons.prems by simp
  show ?case
    using Cons.IH[OF rest] ok by (cases ok) (simp_all add: entryOf_def)
qed

text \<open>Whatever the loop returns holds validated options only, under distinct keys.\<close>

lemma every_validOption_True:
  "every_validOption opts = Inr True \<Longrightarrow> opt \<in> set opts \<Longrightarrow> validOption opt = Inr True"
  by (induction opts) (auto split: sum.splits if_splits)

lemma validItem_True_options:
  "validItem item = Inr True \<Longrightarrow> opt \<in> set (snd (entryOf item)) \<Longrightarrow> validOption opt = Inr True"
  by (auto simp: validItem_def entryOf_def split: if_splits dest: every_validOption_True)

lemma collectOptions_entries_valid:
  assumes "collectOptions items optionsMap console = (Inr result, console')"
    and "\<forall>(k, opts) \<in> set optionsMap. \<forall>opt \<in> set opts. validOption opt = Inr True"
  shows "\<forall>(k, opts) \<in> set result. \<forall>opt \<in> set opts. validOption opt = Inr True"
  using assms
proof (induction items arbitrary: optionsMap console)
  case Nil
  then show ?case by simp
next
  case (Cons item items)
  show ?case
  proof (cases "validItem item")
    case (Inl e)
    then show ?thesis using Cons.prems by simp
  next
    case (Inr ok)
    show ?thesis
    proof (cases ok)
      case True
      let ?m = "AList.update (fst (entryOf item)) (snd (entryOf item)) optionsMap"
      have c: "collectOptions items ?m console = (Inr result, console')"
        using Cons.prems(1) Inr True by (simp add: entryOf_def)
      have "\<forall>(k, opts) \<in> set ?m. \<forall>opt \<in> set opts. validOption opt = Inr True"
      proof (intro ballI, clarify)
        fix k opts opt
        assume in_m: "(k, opts) \<in> set ?m" and in_opts: "opt \<in> set opts"
        from in_m have "(k, opts) = entryOf item \<or> (k, opts) \<in> set optionsMap"
          using set_update_subset[of "fst (entryOf item)" "snd (entryOf item)" optionsMap]
          by auto
        then show "validOption opt = Inr True"
        proof
          assume "(k, opts) = entryOf item"
          then have "opt \<in> set (snd (entryOf item))"
            using in_opts by (metis snd_conv)
          then show ?thesis
            using Inr True by (intro validItem_True_options[of item]) simp_all
        next
          assume "(k, opts) \<in> set optionsMap"
          then show ?thesis using Cons.prems(2) in_opts by blast
        qed
      qed
      then show ?thesis by (rule Cons.IH[OF c])
    next
      case False
      then show ?thesis using Cons.prems Inr Cons.IH by simp
    qed
  qed
qed

lemma distinct_collectOptions:
  "collectOptions items optionsMap console = (Inr result, console') \<Longrightarrow>
   distinct (map fst optionsMap) \<Longrightarrow> distinct (map fst result)"
proof (induction items arbitrary: optionsMap console)
  case Nil
  then show ?case by simp
next
  case (Cons item items)
  then show ?case
    by (auto split: sum.splits if_splits simp: distinct_update)
qed


text \<open>The way through the function when the request succeeds and the text parses to an array.\<close>

lemma withRetry_first_resolves:
  "generateContent 0 = Inr v \<Longrightarrow>
   fst (withRetry generateContent rnd default_maxRetries initialDelay) = Inr v"
  by (simp add: withRetry_def default_maxRetries_def withRetry_loop_resolved)

lemma trim_Nil: "trim [] = []"
  by (simp add: trim_def)

lemma batchTry_array:
  assumes "fst (withRetry generateContent rnd default_maxRetries default_initialDelay) = Inr (Some txt)"
    and "trim txt \<noteq> []"
    and "JSON_parse (cleanJsonText (trim txt)) = Some (JArr results)"
  shows "batchTry JSON_parse generateContent rnd questions =
     (case collectOptions results [] [] of
        (Inl e, console) \<Rightarrow> (Inl e, console)
      | (Inr optionsMap, console) \<Rightarrow>
          (Inr optionsMap,
           if length optionsMap \<noteq> length questions
           then console @ [WarnCount (length questions) (length optionsMap)]
           else console))"
proof -
  have "txt \<noteq> []" using assms(2) trim_Nil by auto
  then show ?thesis using assms by (simp add: batchTry_def)
qed

lemma batchTry_Inr:
  assumes "batchTry JSON_parse generateContent rnd questions = (Inr optionsMap, console)"
  shows "\<exists>results console'. collectOptions results [] [] = (Inr optionsMap, console')"
  using assms
  by (auto simp: batchTry_def Let_def split: sum.splits option.splits if_splits json.splits
      prod.splits)

lemma generateBatchQuestionOptions_Inr:
  assumes "fst (generateBatchQuestionOptions translations JSON_parse generateContent rnd apiKey
      questions lang) = Inr optionsMap"
  shows "optionsMap = [] \<or> (\<exists>results console'. collectOptions results [] [] = (Inr optionsMap, console'))"
proof (cases "length questions = 0 \<or> or_else apiKey [] = []")
  case True
  then show ?thesis using assms by (auto simp: generateBatchQuestionOptions_def split: if_splits)
next
  case False
  obtain r c where rc: "batchTry JSON_parse generateContent rnd questions = (r, c)"
    by (cases "batchTry JSON_parse generateContent rnd questions")
  have "r = Inr optionsMap"
    using assms False rc by (cases r) (simp_all add: generateBatchQuestionOptions_def)
  then show ?thesis using rc batchTry_Inr by blast
qed

lemma map_of_mergeOptions_other:
  "qid \<notin> fst ` set m \<Longrightarrow> map_of (mergeOptions m prev) qid = map_of prev qid"
proof (induction m arbitrary: prev)
  case Nil
  then show ?case by (simp add: mergeOptions_def)
next
  case (Cons e m)
  obtain k v where e: "e = (k, v)" by (cases e)
  have "map_of (mergeOptions m (AList.update k (map asGeneratedOption v) prev)) qid
      = map_of (AList.update k (map asGeneratedOption v) prev) qid"
    using Cons.prems by (intro Cons.IH) simp
  then show ?case using Cons.prems e by (simp add: mergeOptions_def update_conv')
qed

lemma map_of_mergeOptions:
  "distinct (map fst m) \<Longrightarrow> (qid, opts) \<in> set m \<Longrightarrow>
   map_of (mergeOptions m prev) qid = Some (map asGeneratedOption opts)"
proof (induction m arbitrary: prev)
  case Nil
  then show ?case by simp
next
  case (Cons e m)
  obtain k v where e: "e = (k, v)" by (cases e)
  have unfold: "mergeOptions (e # m) prev = mergeOptions m (AList.update k (map asGeneratedOption v) prev)"
    by (simp add: mergeOptions_def e)
  show ?case
  proof (cases "(qid, opts) = (k, v)")
    case True
    then have "qid \<notin> fst ` set m" using Cons.prems(1) e by auto
    then show ?thesis
      unfolding unfold using True by (simp add: map_of_mergeOptions_other update_conv')
  next
    case False
    then have "(qid, opts) \<in> set m" using Cons.prems(2) e by auto
    moreover have "distinct (map fst m)" using Cons.prems(1) by simp
    ultimately show ?thesis unfolding unfold by (intro Cons.IH)
  qed
qed

lemma validOption_True:
  "validOption opt = Inr True \<Longrightarrow>
   isString (get_prop opt (jstr ''text'')) \<and> isNumber (get_prop opt (jstr ''score''))"
  by (simp add: validOption_def split: if_splits)

text \<open>The function on the concrete responses.\<close>

lemma respondsWith_resolves:
  "fst (withRetry (respondsWith rtext) rnd default_maxRetries default_initialDelay)
     = Inr (Some rtext)"
  by (rule withRetry_first_resolves) (simp add: respondsWith_def)

lemma trim_brackets: "trim (jstr ''[]'') = jstr ''[]''"
  by (simp add: trim_def jstr_def isWhiteSpace_def)

lemma validItem_samples:
  "validItem (itemObj 1 [optionObj ''first'' 1]) = Inr True"
  "validItem (itemObj 1 [optionObj ''second'' 2]) = Inr True"
  "validItem (itemObj 1 [optionObj ''fine'' 3]) = Inr True"
  "validItem (itemObj 2 [JNull]) = Inl (nullReadError (jstr ''text''))"
  "validItem JNull = Inr False"
  "validItem (JObj [(jstr ''questionId'', JStr (jstr ''2''))]) = Inr False"
  "validItem (itemObj 3 [optionObj ''stray'' 2]) = Inr True"
  "validItem (itemObj 1 [optionObj ''beyond'' 7]) = Inr True"
  "validItem (itemObj 2 [optionObj ''below'' (- 1)]) = Inr True"
  by (simp_all add: validItem_def validOption_def itemObj_def optionObj_def jstr_def)

lemma entryOf_itemObj: "entryOf (itemObj qid opts) = (qid, opts)"
  by (simp add: entryOf_def itemObj_def jstr_def)

lemma get_prop_itemObj:
  "the_number (get_prop (itemObj qid opts) (jstr ''questionId'')) = qid"
  "the_array (get_prop (itemObj qid opts) (jstr ''options'')) = opts"
  by (simp_all add: itemObj_def jstr_def)

lemma batchTry_parsesTo:
  "batchTry (parsesTo (JArr results)) (respondsWith (jstr ''[]'')) rnd questions =
     (case collectOptions results [] [] of
        (Inl e, console) \<Rightarrow> (Inl e, console)
      | (Inr optionsMap, console) \<Rightarrow>
          (Inr optionsMap,
           if length optionsMap \<noteq> length questions
           then console @ [WarnCount (length questions) (length optionsMap)]
           else console))"
proof (rule batchTry_array[OF respondsWith_resolves])
  show "trim (jstr ''[]'') \<noteq> []" unfolding trim_brackets by (simp add: jstr_def)
  show "parsesTo (JArr results) (cleanJsonText (trim (jstr ''[]''))) = Some (JArr results)"
    by (simp add: parsesTo_def)
qed

lemma generateBatchQuestionOptions_with_key:
  "questions \<noteq> [] \<Longrightarrow>
   generateBatchQuestionOptions translations JSON_parse generateContent rnd (Some (jstr ''key''))
       questions lang =
     (case batchTry JSON_parse generateContent rnd questions of
        (Inr optionsMap, console) \<Rightarrow> (Inr optionsMap, console)
      | (Inl e, console) \<Rightarrow>
          (Inl (if err_name e = jstr ''SyntaxError''
                then newError (t translations (jstr ''error_json_parse'') lang)
                else newError (t translations (jstr ''error_api_generation'') lang)),
           console @ [ConsoleError e]))"
  by (simp add: generateBatchQuestionOptions_def or_else_def jstr_def)

lemma collectOptions_samples:
  "collectOptions duplicateResponse [] [] = (Inr [(1, [optionObj ''second'' 2])], [])"
  "collectOptions nullOptionResponse [] [] = (Inl (nullReadError (jstr ''text'')), [])"
  "collectOptions score7Response [] []
     = (Inr [(1, [optionObj ''beyond'' 7]), (2, [optionObj ''below'' (- 1)])], [])"
  by (simp_all add: duplicateResponse_def nullOptionResponse_def score7Response_def
      validItem_samples get_prop_itemObj)

lemma twoQuestions_length: "twoQuestions \<noteq> []" "length twoQuestions = 2"
  by (simp_all add: twoQuestions_def)

lemma generateBatchQuestionOptions_samples:
  "generateBatchQuestionOptions noTranslations (parsesTo (JArr duplicateResponse))
       (respondsWith (jstr ''[]'')) rndHalf (Some (jstr ''key'')) twoQuestions En
     = (Inr [(1, [optionObj ''second'' 2])], [WarnCount 2 1])"
  "fst (generateBatchQuestionOptions noTranslations (parsesTo (JArr nullOptionResponse))
       (respondsWith (jstr ''[]'')) rndHalf (Some (jstr ''key'')) twoQuestions En)
     = Inl (newError (jstr ''[error_api_generation]''))"
  "generateBatchQuestionOptions noTranslations (parsesTo (JArr score7Response))
       (respondsWith (jstr ''[]'')) rndHalf (Some (jstr ''key'')) twoQuestions En
     = (Inr [(1, [optionObj ''beyond'' 7]), (2, [optionObj ''below'' (- 1)])], [])"
proof -
  have e: "t noTranslations (jstr ''error_api_generation'') En = jstr ''[error_api_generation]''"
    by (simp add: t_def or_else_def noTranslations_def jstr_def)
  have n: "err_name (nullReadError (jstr ''text'')) \<noteq> jstr ''SyntaxError''"
    by (simp add: nullReadError_def jstr_def)
  show "generateBatchQuestionOptions noTranslations (parsesTo (JArr duplicateResponse))
       (respondsWith (jstr ''[]'')) rndHalf (Some (jstr ''key'')) twoQuestions En
     = (Inr [(1, [optionObj ''second'' 2])], [WarnCount 2 1])"
    by (simp add: generateBatchQuestionOptions_with_key[OF twoQuestions_length(1)]
        batchTry_parsesTo collectOptions_samples twoQuestions_length(2))
  show "fst (generateBatchQuestionOptions noTranslations (parsesTo (JArr nullOptionResponse))
       (respondsWith (jstr ''[]'')) rndHalf (Some (jstr ''key'')) twoQuestions En)
     = Inl (newError (jstr ''[error_api_generation]''))"
    by (simp add: generateBatchQuestionOptions_with_key[OF twoQuestions_length(1)]
        batchTry_parsesTo collectOptions_samples e n)
  show "generateBatchQuestionOptions noTranslations (parsesTo (JArr score7Response))
       (respondsWith (jstr ''[]'')) rndHalf (Some (jstr ''key'')) twoQuestions En
     = (Inr [(1, [optionObj ''beyond'' 7]), (2, [optionObj ''below'' (- 1)])], [])"
    by (simp add: generateBatchQuestionOptions_with_key[OF twoQuestions_length(1)]
        batchTry_parsesTo collectOptions_samples twoQuestions_length(2))
qed

lemma collectOptions_otherId:
  "collectOptions otherIdResponse [] []
     = (Inr [(1, [optionObj ''fine'' 3]), (3, [optionObj ''stray'' 2])], [])"
  by (simp add: otherIdResponse_def validItem_samples get_prop_itemObj)

lemma generateBatchQuestionOptions_otherId:
  "generateBatchQuestionOptions noTranslations (parsesTo (JArr otherIdResponse))
       (respondsWith (jstr ''[]'')) rndHalf (Some (jstr ''key'')) twoQuestions En
     = (Inr [(1, [optionObj ''fine'' 3]), (3, [optionObj ''stray'' 2])], [])"
  by (simp add: generateBatchQuestionOptions_with_key[OF twoQuestions_length(1)]
      batchTry_parsesTo collectOptions_otherId twoQuestions_length(2))

lemma optionObj_neq: "optionObj ''first'' 1 \<noteq> optionObj ''second'' 2"
  by (simp add: optionObj_def)

section \<open>Claims about the batched option fetch\<close>

text \<open>
  C4, as stated, fails in three ways. A response with two valid items for the same
  question id yields a map that holds the second only: the first is a valid entry of the
  response and is not in the map. A response with an item whose \<open>options\<close> contain
  \<open>null\<close> makes \<open>opt.text\<close> throw a \<open>TypeError\<close>; the \<open>catch\<close> block turns it into the
  localized generation error, so the function raises and returns no map, not even for
  the valid item that came first. And a response for questions 1 and 2 that holds valid
  items for ids 1 and 3 yields a map that misses the requested id 2 without any warning,
  because the warning compares the sizes only.
\<close>

theorem generateBatchQuestionOptions_counterexample:
  "fst (generateBatchQuestionOptions noTranslations (parsesTo (JArr duplicateResponse))
          (respondsWith (jstr ''[]'')) rndHalf (Some (jstr ''key'')) twoQuestions En)
     = Inr [(1, [optionObj ''second'' 2])]
   \<and> validItem (itemObj 1 [optionObj ''first'' 1]) = Inr True
   \<and> itemObj 1 [optionObj ''first'' 1] \<in> set duplicateResponse
   \<and> entryOf (itemObj 1 [optionObj ''first'' 1]) \<notin> set [(1, [optionObj ''second'' 2])]
   \<and> fst (generateBatchQuestionOptions noTranslations (parsesTo (JArr nullOptionResponse))
          (respondsWith (jstr ''[]'')) rndHalf (Some (jstr ''key'')) twoQuestions En)
     = Inl (newError (jstr ''[error_api_generation]''))
   \<and> map fst twoQuestions = [1, 2]
   \<and> generateBatchQuestionOptions noTranslations (parsesTo (JArr otherIdResponse))
          (respondsWith (jstr ''[]'')) rndHalf (Some (jstr ''key'')) twoQuestions En
     = (Inr [(1, [optionObj ''fine'' 3]), (3, [optionObj ''stray'' 2])], [])"
proof (intro conjI)
  show "fst (generateBatchQuestionOptions noTranslations (parsesTo (JArr duplicateResponse))
          (respondsWith (jstr ''[]'')) rndHalf (Some (jstr ''key'')) twoQuestions En)
     = Inr [(1, [optionObj ''second'' 2])]"
    by (simp add: generateBatchQuestionOptions_samples(1))
  show "validItem (itemObj 1 [optionObj ''first'' 1]) = Inr True"
    by (rule validItem_samples(1))
  show "itemObj 1 [optionObj ''first'' 1] \<in> set duplicateResponse"
    by (simp add: duplicateResponse_def)
  show "entryOf (itemObj 1 [optionObj ''first'' 1]) \<notin> set [(1, [optionObj ''second'' 2])]"
    by (simp add: entryOf_itemObj optionObj_neq)
  show "fst (generateBatchQuestionOptions noTranslations (parsesTo (JArr nullOptionResponse))
          (respondsWith (jstr ''[]'')) rndHalf (Some (jstr ''key'')) twoQuestions En)
     = Inl (newError (jstr ''[error_api_generation]''))"
    by (rule generateBatchQuestionOptions_samples(2))
  show "map fst twoQuestions = [1, 2]"
    by (simp add: twoQuestions_def)
  show "generateBatchQuestionOptions noTranslations (parsesTo (JArr otherIdResponse))
          (respondsWith (jstr ''[]'')) rndHalf (Some (jstr ''key'')) twoQuestions En
     = (Inr [(1, [optionObj ''fine'' 3]), (3, [optionObj ''stray'' 2])], [])"
    by (rule generateBatchQuestionOptions_otherId)
qed

text \<open>
  C4, amended. For a non-empty batch, an API key, a request that succeeds with a text
  that parses to an array \<open>results\<close>, and no item whose validation throws (which happens
  when \<open>every\<close> reaches a \<open>null\<close> element of \<open>options\<close>): the function returns a map
  and raises no error. The map has distinct keys and gives, for each question id, the
  options of the last valid item of the response with that id, and nothing for an id
  without a valid item. Each invalid item is dropped with one warning. The map is
  returned whether or not it covers the requested questions; a further warning is printed
  exactly when the number of its keys differs from the number of requested questions.
\<close>

theorem generateBatchQuestionOptions_valid_entries:
  assumes "questions \<noteq> []" and "or_else apiKey [] \<noteq> []"
    and "fst (withRetry generateContent rnd default_maxRetries default_initialDelay) = Inr (Some txt)"
    and "trim txt \<noteq> []"
    and "JSON_parse (cleanJsonText (trim txt)) = Some (JArr results)"
    and "\<forall>item \<in> set results. \<exists>ok. validItem item = Inr ok"
  shows "\<exists>optionsMap.
      generateBatchQuestionOptions translations JSON_parse generateContent rnd apiKey questions lang
        = (Inr optionsMap,
           map WarnInvalidItem (filter (\<lambda>item. validItem item = Inr False) results)
           @ (if length optionsMap \<noteq> length questions
              then [WarnCount (length questions) (length optionsMap)] else []))
    \<and> map_of optionsMap
        = map_of (rev (map entryOf (filter (\<lambda>item. validItem item = Inr True) results)))
    \<and> distinct (map fst optionsMap)"
proof -
  define optionsMap where "optionsMap = foldl (\<lambda>m (k, v). AList.update k v m) []
      (map entryOf (filter (\<lambda>item. validItem item = Inr True) results))"
  have c: "collectOptions results [] [] =
      (Inr optionsMap, map WarnInvalidItem (filter (\<lambda>item. validItem item = Inr False) results))"
    using collectOptions_quiet[OF assms(6), of "[]" "[]"] by (simp add: optionsMap_def)
  have b: "batchTry JSON_parse generateContent rnd questions =
      (Inr optionsMap,
       map WarnInvalidItem (filter (\<lambda>item. validItem item = Inr False) results)
       @ (if length optionsMap \<noteq> length questions
          then [WarnCount (length questions) (length optionsMap)] else []))"
    using batchTry_array[of generateContent rnd "txt" JSON_parse results questions] assms(3,4,5) c
    by simp
  have g: "generateBatchQuestionOptions translations JSON_parse generateContent rnd apiKey questions lang
      = (Inr optionsMap,
         map WarnInvalidItem (filter (\<lambda>item. validItem item = Inr False) results)
         @ (if length optionsMap \<noteq> length questions
            then [WarnCount (length questions) (length optionsMap)] else []))"
    using assms(1,2) by (simp add: generateBatchQuestionOptions_def b)
  have m: "map_of optionsMap
      = map_of (rev (map entryOf (filter (\<lambda>item. validItem item = Inr True) results)))"
    unfolding optionsMap_def by (simp add: map_of_foldl_update)
  have d: "distinct (map fst optionsMap)"
    unfolding optionsMap_def by (rule distinct_foldl_update) simp
  show ?thesis using g m d by blast
qed

theorem generateBatchQuestionOptions_valid_entries_witness:
  "\<exists>optionsMap.
      generateBatchQuestionOptions noTranslations (parsesTo (JArr mixedResponse))
          (respondsWith (jstr ''[]'')) rndHalf (Some (jstr ''key'')) twoQuestions En
        = (Inr optionsMap,
           map WarnInvalidItem (filter (\<lambda>item. validItem item = Inr False) mixedResponse)
           @ (if length optionsMap \<noteq> length twoQuestions
              then [WarnCount (length twoQuestions) (length optionsMap)] else []))
    \<and> map_of optionsMap
        = map_of (rev (map entryOf (filter (\<lambda>item. validItem item = Inr True) mixedResponse)))
    \<and> distinct (map fst optionsMap)"
proof (rule generateBatchQuestionOptions_valid_entries)
  show "twoQuestions \<noteq> []" by (simp add: twoQuestions_def)
  show "or_else (Some (jstr ''key'')) [] \<noteq> []" by (simp add: or_else_def jstr_def)
  show "fst (withRetry (respondsWith (jstr ''[]'')) rndHalf default_maxRetries default_initialDelay)
      = Inr (Some (jstr ''[]''))"
    by (rule respondsWith_resolves)
  show "trim (jstr ''[]'') \<noteq> []" unfolding trim_brackets by (simp add: jstr_def)
  show "parsesTo (JArr mixedResponse) (cleanJsonText (trim (jstr ''[]''))) = Some (JArr mixedResponse)"
    by (simp add: parsesTo_def)
  show "\<forall>item \<in> set mixedResponse. \<exists>ok. validItem item = Inr ok"
    by (auto simp: mixedResponse_def validItem_samples)
qed

text \<open>
  C8, as stated, fails: the validation tests the type of \<open>score\<close> only, so a response with
  scores 7 and -1 is accepted and the option with score 7 is merged into the cache.
\<close>

theorem merged_options_counterexample:
  "fst (generateBatchQuestionOptions noTranslations (parsesTo (JArr score7Response))
          (respondsWith (jstr ''[]'')) rndHalf (Some (jstr ''key'')) twoQuestions En)
     = Inr [(1, [optionObj ''beyond'' 7]), (2, [optionObj ''below'' (- 1)])]
   \<and> map_of (mergeOptions [(1, [optionObj ''beyond'' 7]), (2, [optionObj ''below'' (- 1)])] []) 1
     = Some [\<lparr>o_text = jstr ''beyond'', o_score = 7\<rparr>]
   \<and> \<not> o_score \<lparr>o_text = jstr ''beyond'', o_score = 7\<rparr> \<le> 5"
proof (intro conjI)
  show "fst (generateBatchQuestionOptions noTranslations (parsesTo (JArr score7Response))
          (respondsWith (jstr ''[]'')) rndHalf (Some (jstr ''key'')) twoQuestions En)
     = Inr [(1, [optionObj ''beyond'' 7]), (2, [optionObj ''below'' (- 1)])]"
    by (simp add: generateBatchQuestionOptions_samples(3))
  show "map_of (mergeOptions [(1, [optionObj ''beyond'' 7]), (2, [optionObj ''below'' (- 1)])] []) 1
     = Some [\<lparr>o_text = jstr ''beyond'', o_score = 7\<rparr>]"
    by (simp add: mergeOptions_def asGeneratedOption_def optionObj_def jstr_def)
  show "\<not> o_score \<lparr>o_text = jstr ''beyond'', o_score = 7\<rparr> \<le> 5"
    by simp
qed

text \<open>
  C8, amended. Every option of every entry of a map that the batch fetch returns has a
  string \<open>text\<close> and a numeric \<open>score\<close> (no range is checked), and the merge stores the
  entry's options in the cache under its question id.
\<close>

theorem merged_options_text_and_score:
  assumes "fst (generateBatchQuestionOptions translations JSON_parse generateContent rnd apiKey
      questions lang) = Inr optionsMap"
    and "(qid, opts) \<in> set optionsMap"
    and "opt \<in> set opts"
  shows "isString (get_prop opt (jstr ''text'')) \<and> isNumber (get_prop opt (jstr ''score''))
     \<and> map_of (mergeOptions optionsMap prev) qid = Some (map asGeneratedOption opts)"
proof -
  from generateBatchQuestionOptions_Inr[OF assms(1)] assms(2)
  obtain results console' where c: "collectOptions results [] [] = (Inr optionsMap, console')"
    by auto
  have "\<forall>(k, opts) \<in> set optionsMap. \<forall>opt \<in> set opts. validOption opt = Inr True"
    by (rule collectOptions_entries_valid[OF c]) simp
  then have "validOption opt = Inr True" using assms(2,3) by blast
  moreover have "distinct (map fst optionsMap)"
    by (rule distinct_collectOptions[OF c]) simp
  ultimately show ?thesis
    using validOption_True map_of_mergeOptions[OF _ assms(2)] by blast
qed


theorem merged_options_text_and_score_witness:
  "isString (get_prop (optionObj ''beyond'' 7) (jstr ''text''))
   \<and> isNumber (get_prop (optionObj ''beyond'' 7) (jstr ''score''))
   \<and> map_of (mergeOptions [(1, [optionObj ''beyond'' 7]), (2, [optionObj ''below'' (- 1)])]
        [(1, [])]) 1
     = Some (map asGeneratedOption [optionObj ''beyond'' 7])"
proof (rule merged_options_text_and_score)
  show "fst (generateBatchQuestionOptions noTranslations (parsesTo (JArr score7Response))
          (respondsWith (jstr ''[]'')) rndHalf (Some (jstr ''key'')) twoQuestions En)
     = Inr [(1, [optionObj ''beyond'' 7]), (2, [optionObj ''below'' (- 1)])]"
    by (simp add: generateBatchQuestionOptions_samples(3))
  show "(1, [optionObj ''beyond'' 7]) \<in> set [(1, [optionObj ''beyond'' 7]), (2, [optionObj ''below'' (- 1)])]"
    by simp
  show "optionObj ''beyond'' 7 \<in> set [optionObj ''beyond'' 7]" by simp
qed

section \<open>Facts about sharing results\<close>

text \<open>
  A code unit above 255 that is not a surrogate is copied by \<open>JSON.stringify\<close> from an
  answer's text into the string handed to \<open>btoa\<close>.
\<close>

lemma escapeUnit_copies:
  "255 < c \<Longrightarrow> \<not> isLowSurrogate c \<Longrightarrow> escapeUnit c = [c]"
  by (simp add: escapeUnit_def)

lemma quoteChars_keeps:
  "c \<in> set str \<Longrightarrow> 255 < c \<Longrightarrow> \<not> isHighSurrogate c \<Longrightarrow> \<not> isLowSurrogate c \<Longrightarrow>
   c \<in> set (quoteChars str)"
proof (induction str rule: quoteChars.induct)
  case 1
  then show ?case by simp
next
  case (2 x)
  then show ?case by (simp add: escapeUnit_copies)
next
  case (3 x d cs)
  show ?case
  proof (cases "c = x")
    case True
    then show ?thesis using "3.prems" by (simp add: escapeUnit_copies)
  next
    case False
    then have tail: "c \<in> set (d # cs)" using "3.prems"(1) by simp
    show ?thesis
    proof (cases "isHighSurrogate x")
      case hi: True
      show ?thesis
      proof (cases "isLowSurrogate d")
        case True
        then have "c \<noteq> d" using "3.prems"(4) by auto
        then have "c \<in> set cs" using tail by simp
        then have "c \<in> set (quoteChars cs)"
          using "3.IH"(1)[OF hi True] "3.prems" by simp
        then show ?thesis using hi True by simp
      next
        case False
        have "c \<in> set (quoteChars (d # cs))"
          using "3.IH"(2)[OF hi False tail] "3.prems" by simp
        then show ?thesis using hi False by simp
      qed
    next
      case lo: False
      have "c \<in> set (quoteChars (d # cs))"
        using "3.IH"(3)[OF lo tail] "3.prems" by simp
      then show ?thesis using lo by simp
    qed
  qed
qed

lemma join_keeps: "x \<in> set xs \<Longrightarrow> c \<in> set x \<Longrightarrow> c \<in> set (join sep xs)"
  by (induction sep xs rule: join.induct) auto

lemma stringify_JStr_keeps:
  "c \<in> set str \<Longrightarrow> 255 < c \<Longrightarrow> \<not> isHighSurrogate c \<Longrightarrow> \<not> isLowSurrogate c \<Longrightarrow>
   c \<in> set (stringify (JStr str))"
  by (simp add: quoteJSONString_def quoteChars_keeps)

lemma stringify_JArr_keeps:
  "x \<in> set xs \<Longrightarrow> c \<in> set (stringify x) \<Longrightarrow> c \<in> set (stringify (JArr xs))"
  using join_keeps[of "stringify x" "map stringify xs" c "[44]"] by simp

lemma stringify_JObj_keeps:
  "(k, x) \<in> set kvs \<Longrightarrow> c \<in> set (stringify x) \<Longrightarrow> c \<in> set (stringify (JObj kvs))"
  using join_keeps[of "quoteJSONString k @ [58] @ stringify x"
      "map (\<lambda>kv. quoteJSONString (fst kv) @ [58] @ stringify (snd kv)) kvs" c "[44]"]
  by force

lemma stringify_answer_keeps:
  assumes "c \<in> set (optionText a) \<or> c \<in> set (remark a)"
    and "255 < c" and "\<not> isHighSurrogate c" and "\<not> isLowSurrogate c"
  shows "c \<in> set (stringify (answerJson a))"
proof -
  from assms(1) consider "c \<in> set (optionText a)" | "c \<in> set (remark a)" by blast
  then show ?thesis
  proof cases
    case 1
    have "c \<in> set (stringify (JStr (optionText a)))"
      using 1 assms(2-4) by (rule stringify_JStr_keeps)
    then show ?thesis
      unfolding answerJson_def
      by (rule stringify_JObj_keeps[of "jstr ''optionText''", rotated]) simp
  next
    case 2
    have "c \<in> set (stringify (JStr (remark a)))"
      using 2 assms(2-4) by (rule stringify_JStr_keeps)
    then show ?thesis
      unfolding answerJson_def
      by (rule stringify_JObj_keeps[of "jstr ''remark''", rotated]) simp
  qed
qed

lemma stringify_dataToShare_keeps:
  assumes "(k, a) \<in> set answers'"
    and "c \<in> set (optionText a) \<or> c \<in> set (remark a)"
    and "255 < c" and "\<not> isHighSurrogate c" and "\<not> isLowSurrogate c"
  shows "c \<in> set (stringify (dataToShare answers' worldviewImageUrl))"
proof -
  have 1: "c \<in> set (stringify (answerJson a))"
    using assms(2-5) by (rule stringify_answer_keeps)
  have 2: "c \<in> set (stringify (JArr [JNum k, answerJson a]))"
    by (rule stringify_JArr_keeps[OF _ 1]) simp
  have "JArr [JNum k, answerJson a] \<in> set (map (\<lambda>(k, a). JArr [JNum k, answerJson a]) answers')"
    using assms(1) by force
  then have 3: "c \<in> set (stringify (entriesJson answers'))"
    unfolding entriesJson_def using 2 by (rule stringify_JArr_keeps)
  show ?thesis
    unfolding dataToShare_def
    by (rule stringify_JObj_keeps[of "jstr ''answers''", OF _ 3]) simp
qed

section \<open>Claim about sharing results\<close>

text \<open>
  C6 requires every answers map to survive sharing and loading. The code fails it at the
  first step: when an option text or remark of some answer contains a character outside
  Latin-1, such as any Cyrillic letter of the default language, \<open>btoa\<close> throws and
  \<open>handleShare\<close> produces no URL at all, so there is nothing to load.
\<close>

theorem handleShare_non_latin1_raises:
  assumes "(k, a) \<in> set answers'"
    and "c \<in> set (optionText a) \<or> c \<in> set (remark a)"
    and "255 < c" and "\<not> isHighSurrogate c" and "\<not> isLowSurrogate c"
  shows "handleShare origin pathname answers' worldviewImageUrl = Inl invalidCharacterError"
proof -
  have "c \<in> set (stringify (dataToShare answers' worldviewImageUrl))"
    using assms by (rule stringify_dataToShare_keeps)
  then have "list_ex (\<lambda>c. 255 < c) (stringify (dataToShare answers' worldviewImageUrl))"
    using assms(3) by (auto simp: list_ex_iff)
  then show ?thesis by (simp add: handleShare_def btoa_def)
qed

theorem handleShare_non_latin1_raises_witness:
  "handleShare (jstr ''https://quiz.example'') (jstr ''/'') [(1, russianAnswer)] None
     = Inl invalidCharacterError"
  by (rule handleShare_non_latin1_raises[of 1 russianAnswer _ 1044])
     (simp_all add: russianAnswer_def isHighSurrogate_def isLowSurrogate_def)

section \<open>Facts about saving results\<close>

lemma alreadySavedEffect_storage:
  "quizSavedResults (alreadySavedEffect translations v) = quizSavedResults v"
  by (simp add: alreadySavedEffect_def Let_def split: StoredResults.splits sum.splits)

lemma alreadySavedEffect_props:
  "rv_answers (alreadySavedEffect translations v) = rv_answers v"
  by (simp add: alreadySavedEffect_def Let_def split: StoredResults.splits sum.splits)

text \<open>Without a \<open>null\<close> element the search does not throw, and it finds a stored match.\<close>

lemma someAlreadySaved_found:
  assumes "JNull \<notin> set rs" and "res \<in> set rs"
    and "get_prop res (jstr ''answers'') = Some stored"
    and "stringify stored = current"
  shows "someAlreadySaved current rs = Inr True"
  using assms
proof (induction rs)
  case Nil
  then show ?case by simp
next
  case (Cons x rs)
  show ?case
  proof (cases "x = res")
    case True
    then show ?thesis using Cons.prems by auto
  next
    case False
    then have "someAlreadySaved current rs = Inr True"
      using Cons by simp
    then show ?thesis using Cons.prems(1) by auto
  qed
qed

text \<open>A match at the end is found unless the search throws before it.\<close>

lemma someAlreadySaved_last:
  assumes "res \<noteq> JNull" and "get_prop res (jstr ''answers'') = Some stored"
    and "stringify stored = current"
  shows "someAlreadySaved current (rs @ [res]) \<noteq> Inr False"
  using assms by (induction rs) simp_all

lemma get_prop_savedResultJson:
  "get_prop (savedResultJson res) (jstr ''answers'') = Some (entriesJson (sr_answers res))"
  "savedResultJson res \<noteq> JNull"
  by (simp_all add: savedResultJson_def jstr_def)

lemma alreadySavedEffect_found:
  assumes "quizSavedResults v = Stored rs" and "JNull \<notin> set rs" and "res \<in> set rs"
    and "get_prop res (jstr ''answers'') = Some (entriesJson (rv_answers v))"
  shows "isSaved (alreadySavedEffect translations v)"
proof -
  have "someAlreadySaved (stringify (entriesJson (rv_answers v))) rs = Inr True"
    using assms(2-4) by (intro someAlreadySaved_found) simp_all
  then show ?thesis using assms(1) by (simp add: alreadySavedEffect_def)
qed

lemma handleSaveResults_saved: "isSaved v \<Longrightarrow> handleSaveResults translations now quotaExceeded v = v"
  by (simp add: handleSaveResults_def)

text \<open>The effect never resets \<open>isSaved\<close> when the list ends with a result for the current answers.\<close>

lemma alreadySavedEffect_after_save:
  assumes "quizSavedResults v = Stored (rs @ [savedResultJson res])"
    and "sr_answers res = rv_answers v" and "isSaved v"
  shows "isSaved (alreadySavedEffect translations v)"
proof -
  have "someAlreadySaved (stringify (entriesJson (rv_answers v))) (rs @ [savedResultJson res])
      \<noteq> Inr False"
    by (rule someAlreadySaved_last) (simp_all add: get_prop_savedResultJson assms(2))
  then show ?thesis
    using assms(1,3)
    by (cases "someAlreadySaved (stringify (entriesJson (rv_answers v))) (rs @ [savedResultJson res])")
       (auto simp: alreadySavedEffect_def)
qed

text \<open>A save that goes through leaves a view that the effect keeps as saved.\<close>

lemma handleSaveResults_then_effect:
  assumes "quizSavedResults v \<noteq> Unusable" and "\<not> isSaved v"
  shows "isSaved (handleSaveResults translations now False v)
     \<and> isSaved (alreadySavedEffect translations (handleSaveResults translations now False v))
     \<and> quizSavedResults (handleSaveResults translations now False v)
         = Stored ((case quizSavedResults v of Stored rs \<Rightarrow> rs | other \<Rightarrow> [])
             @ [savedResultJson
                  \<lparr>timestamp = now, sr_answers = rv_answers v,
                   sr_worldviewImageUrl =
                     (case rv_worldviewImageUrl v of
                        None \<Rightarrow> None
                      | Some url \<Rightarrow> if url = [] then None else Some url)\<rparr>])"
proof -
  define newResult where "newResult =
      \<lparr>timestamp = now, sr_answers = rv_answers v,
       sr_worldviewImageUrl =
         (case rv_worldviewImageUrl v of
            None \<Rightarrow> None
          | Some url \<Rightarrow> if url = [] then None else Some url)\<rparr>"
  define rs where "rs = (case quizSavedResults v of Stored rs \<Rightarrow> rs | other \<Rightarrow> [])"
  define v1 where "v1 = handleSaveResults translations now False v"
  have v1: "v1 = v\<lparr>quizSavedResults := Stored (rs @ [savedResultJson newResult]), isSaved := True,
        saveButtonText := t translations (jstr ''results_saved_button'') (rv_language v)\<rparr>"
    using assms
    by (cases "quizSavedResults v")
       (simp_all add: v1_def handleSaveResults_def Let_def newResult_def rs_def)
  have st: "quizSavedResults v1 = Stored (rs @ [savedResultJson newResult])" by (simp add: v1)
  have an: "sr_answers newResult = rv_answers v1" by (simp add: v1 newResult_def)
  have sv: "isSaved v1" by (simp add: v1)
  have "isSaved (alreadySavedEffect translations v1)"
    using st an sv by (rule alreadySavedEffect_after_save)
  then show ?thesis using sv st unfolding v1_def rs_def newResult_def by simp
qed

text \<open>Running the effect again on a view that it left as saved changes nothing.\<close>

lemma alreadySavedEffect_again:
  "isSaved (alreadySavedEffect translations v) \<Longrightarrow>
   isSaved (alreadySavedEffect translations (alreadySavedEffect translations v))"
  by (auto simp: alreadySavedEffect_def Let_def split: StoredResults.splits sum.splits if_splits)

text \<open>The entry lists of the two orders serialize to different strings.\<close>

lemma showDigits_digit: "i < 10 \<Longrightarrow> showDigits i = [nat (48 + i)]"
  by (subst showDigits.simps) simp

lemma showInt_5_9: "showInt 5 = [53]" "showInt 9 = [57]"
  by (simp_all add: showInt_def showMagnitude_def showDigits_digit)

lemma reordered_strings_differ:
  "stringify (entriesJson [(5, sampleAnswer), (9, customAnswer)])
     \<noteq> stringify (entriesJson [(9, customAnswer), (5, sampleAnswer)])"
  by (simp add: entriesJson_def showInt_5_9)

lemma reorderedView_not_found:
  "alreadySavedEffect translations reorderedView
     = reorderedView\<lparr>saveButtonText := t translations (jstr ''save_results_button'') En\<rparr>"
  using reordered_strings_differ
  by (simp add: alreadySavedEffect_def reorderedView_def get_prop_savedResultJson earlierRun_def)

section \<open>Claim about saving results\<close>

text \<open>
  C7, as stated, fails. The effect recognises a saved result by comparing the
  \<open>JSON.stringify\<close> text of its entry list with that of the current answers, and this
  text depends on the insertion order of the map. A results page whose answers map holds
  the same answers as a saved result, inserted in another order (the same custom answers
  given in a second run under another shuffle), is not recognised: the button stays
  enabled and \<open>handleSaveResults\<close> appends a second entry with the same answers.
\<close>

theorem handleSaveResults_counterexample:
  "set (sr_answers earlierRun) = set (rv_answers reorderedView)
   \<and> distinct (map fst (sr_answers earlierRun))
   \<and> distinct (map fst (rv_answers reorderedView))
   \<and> quizSavedResults reorderedView = Stored [savedResultJson earlierRun]
   \<and> quizSavedResults
        (handleSaveResults noTranslations 1700000000999 False
           (alreadySavedEffect noTranslations reorderedView))
     = Stored [savedResultJson earlierRun,
               savedResultJson
                 \<lparr>timestamp = 1700000000999,
                  sr_answers = [(9, customAnswer), (5, sampleAnswer)],
                  sr_worldviewImageUrl = None\<rparr>]"
proof (intro conjI)
  show "set (sr_answers earlierRun) = set (rv_answers reorderedView)"
    by (auto simp: earlierRun_def reorderedView_def)
  show "distinct (map fst (sr_answers earlierRun))"
    by (simp add: earlierRun_def)
  show "distinct (map fst (rv_answers reorderedView))"
    by (simp add: reorderedView_def)
  show "quizSavedResults reorderedView = Stored [savedResultJson earlierRun]"
    by (simp add: reorderedView_def)
  show "quizSavedResults
        (handleSaveResults noTranslations 1700000000999 False
           (alreadySavedEffect noTranslations reorderedView))
     = Stored [savedResultJson earlierRun,
               savedResultJson
                 \<lparr>timestamp = 1700000000999,
                  sr_answers = [(9, customAnswer), (5, sampleAnswer)],
                  sr_worldviewImageUrl = None\<rparr>]"
    unfolding reorderedView_not_found
    by (simp add: handleSaveResults_def reorderedView_def)
qed

text \<open>
  C7, amended. Once the effect has run on the mounted results page: if the saved-results
  list (an array without \<open>null\<close> elements, as the application writes it) holds a
  result whose answers are the current entry list, that is, the same entries in the same
  insertion order, \<open>handleSaveResults\<close> changes nothing and the list stays as it is. And
  saving twice from the same page adds no second entry: a first save stores exactly one
  new result when the page is not marked as saved and nothing otherwise, and after it a
  further save leaves the view and the list unchanged, also when the effect has run
  again in between.
\<close>

theorem handleSaveResults_no_duplicate:
  "(quizSavedResults v = Stored rs \<and> JNull \<notin> set rs \<and> res \<in> set rs
      \<and> get_prop res (jstr ''answers'') = Some (entriesJson (rv_answers v)) \<longrightarrow>
      handleSaveResults translations now quotaExceeded (alreadySavedEffect translations v)
        = alreadySavedEffect translations v
    \<and> quizSavedResults
          (handleSaveResults translations now quotaExceeded (alreadySavedEffect translations v))
        = Stored rs)
   \<and> (quizSavedResults v \<noteq> Unusable \<longrightarrow>
        handleSaveResults translations now' quotaExceeded'
            (handleSaveResults translations now False (alreadySavedEffect translations v))
          = handleSaveResults translations now False (alreadySavedEffect translations v)
      \<and> quizSavedResults
            (handleSaveResults translations now' quotaExceeded'
               (alreadySavedEffect translations
                  (handleSaveResults translations now False (alreadySavedEffect translations v))))
          = quizSavedResults
              (handleSaveResults translations now False (alreadySavedEffect translations v))
      \<and> quizSavedResults
            (handleSaveResults translations now False (alreadySavedEffect translations v))
          = (if isSaved (alreadySavedEffect translations v) then quizSavedResults v
             else Stored ((case quizSavedResults v of Stored rs \<Rightarrow> rs | other \<Rightarrow> [])
                    @ [savedResultJson
                         \<lparr>timestamp = now, sr_answers = rv_answers v,
                          sr_worldviewImageUrl =
                            (case rv_worldviewImageUrl v of
                               None \<Rightarrow> None
                             | Some url \<Rightarrow> if url = [] then None else Some url)\<rparr>])))"
proof (intro conjI impI)
  assume a: "quizSavedResults v = Stored rs \<and> JNull \<notin> set rs \<and> res \<in> set rs
      \<and> get_prop res (jstr ''answers'') = Some (entriesJson (rv_answers v))"
  then have s: "isSaved (alreadySavedEffect translations v)"
    using alreadySavedEffect_found by blast
  then show "handleSaveResults translations now quotaExceeded (alreadySavedEffect translations v)
        = alreadySavedEffect translations v"
    by (rule handleSaveResults_saved)
  then show "quizSavedResults
          (handleSaveResults translations now quotaExceeded (alreadySavedEffect translations v))
        = Stored rs"
    using a by (simp add: alreadySavedEffect_storage)
next
  define mounted where "mounted = alreadySavedEffect translations v"
  define v1 where "v1 = handleSaveResults translations now False mounted"
  assume "quizSavedResults v \<noteq> Unusable"
  then have usable: "quizSavedResults mounted \<noteq> Unusable"
    by (simp add: mounted_def alreadySavedEffect_storage)
  have both: "isSaved v1 \<and> isSaved (alreadySavedEffect translations v1)"
  proof (cases "isSaved mounted")
    case True
    then have "v1 = mounted" unfolding v1_def by (rule handleSaveResults_saved)
    then show ?thesis using True alreadySavedEffect_again unfolding mounted_def by simp
  next
    case False
    then show ?thesis
      unfolding v1_def using handleSaveResults_then_effect[OF usable False] by blast
  qed
  show "handleSaveResults translations now' quotaExceeded'
            (handleSaveResults translations now False (alreadySavedEffect translations v))
          = handleSaveResults translations now False (alreadySavedEffect translations v)"
    using both handleSaveResults_saved unfolding v1_def mounted_def by blast
  have "handleSaveResults translations now' quotaExceeded' (alreadySavedEffect translations v1)
      = alreadySavedEffect translations v1"
    using both handleSaveResults_saved by blast
  then show "quizSavedResults
            (handleSaveResults translations now' quotaExceeded'
               (alreadySavedEffect translations
                  (handleSaveResults translations now False (alreadySavedEffect translations v))))
          = quizSavedResults
              (handleSaveResults translations now False (alreadySavedEffect translations v))"
    unfolding v1_def mounted_def by (simp add: alreadySavedEffect_storage)
  show "quizSavedResults
            (handleSaveResults translations now False (alreadySavedEffect translations v))
          = (if isSaved (alreadySavedEffect translations v) then quizSavedResults v
             else Stored ((case quizSavedResults v of Stored rs \<Rightarrow> rs | other \<Rightarrow> [])
                    @ [savedResultJson
                         \<lparr>timestamp = now, sr_answers = rv_answers v,
                          sr_worldviewImageUrl =
                            (case rv_worldviewImageUrl v of
                               None \<Rightarrow> None
                             | Some url \<Rightarrow> if url = [] then None else Some url)\<rparr>]))"
  proof (cases "isSaved mounted")
    case True
    then show ?thesis
      using handleSaveResults_saved[OF True] unfolding mounted_def
      by (simp add: alreadySavedEffect_storage)
  next
    case False
    have props: "rv_answers mounted = rv_answers v"
      "rv_worldviewImageUrl mounted = rv_worldviewImageUrl v"
      "quizSavedResults mounted = quizSavedResults v"
      unfolding mounted_def
      by (simp_all add: alreadySavedEffect_def Let_def split: StoredResults.splits sum.splits)
    show ?thesis
      using handleSaveResults_then_effect[OF usable False, of "translations" now] False
      unfolding mounted_def[symmetric] props by simp
  qed
qed

lemma sampleViews:
  "quizSavedResults returningView = Stored [savedResultJson earlierResult]"
  "entriesJson (sr_answers earlierResult) = entriesJson (rv_answers returningView)"
  "quizSavedResults freshView = Absent"
  by (simp_all add: returningView_def freshView_def earlierResult_def)

theorem handleSaveResults_no_duplicate_witness:
  "quizSavedResults
      (handleSaveResults noTranslations 1700000000999 False
         (alreadySavedEffect noTranslations returningView))
     = Stored [savedResultJson earlierResult]
   \<and> handleSaveResults noTranslations 1700000000999 False
        (handleSaveResults noTranslations 1700000000500 False
           (alreadySavedEffect noTranslations freshView))
     = handleSaveResults noTranslations 1700000000500 False
         (alreadySavedEffect noTranslations freshView)
   \<and> quizSavedResults
        (handleSaveResults noTranslations 1700000000500 False
           (alreadySavedEffect noTranslations freshView))
     = Stored [savedResultJson
                 \<lparr>timestamp = 1700000000500, sr_answers = [(5, sampleAnswer)],
                  sr_worldviewImageUrl = None\<rparr>]"
proof -
  have a: "quizSavedResults returningView = Stored [savedResultJson earlierResult]
      \<and> JNull \<notin> set [savedResultJson earlierResult]
      \<and> savedResultJson earlierResult \<in> set [savedResultJson earlierResult]
      \<and> get_prop (savedResultJson earlierResult) (jstr ''answers'')
          = Some (entriesJson (rv_answers returningView))"
    using get_prop_savedResultJson(2)[of earlierResult]
    by (auto simp: sampleViews(1) get_prop_savedResultJson(1) sampleViews(2))
  have b: "quizSavedResults freshView \<noteq> Unusable"
    by (simp add: sampleViews)
  have A: "handleSaveResults noTranslations 1700000000999 False
        (alreadySavedEffect noTranslations returningView)
      = alreadySavedEffect noTranslations returningView
    \<and> quizSavedResults
        (handleSaveResults noTranslations 1700000000999 False
           (alreadySavedEffect noTranslations returningView))
      = Stored [savedResultJson earlierResult]"
    using a by (rule handleSaveResults_no_duplicate[THEN conjunct1, rule_format])
  have B: "handleSaveResults noTranslations 1700000000999 False
        (handleSaveResults noTranslations 1700000000500 False
           (alreadySavedEffect noTranslations freshView))
      = handleSaveResults noTranslations 1700000000500 False
          (alreadySavedEffect noTranslations freshView)
    \<and> quizSavedResults
        (handleSaveResults noTranslations 1700000000999 False
           (alreadySavedEffect noTranslations
              (handleSaveResults noTranslations 1700000000500 False
                 (alreadySavedEffect noTranslations freshView))))
      = quizSavedResults
          (handleSaveResults noTranslations 1700000000500 False
             (alreadySavedEffect noTranslations freshView))
    \<and> quizSavedResults
        (handleSaveResults noTranslations 1700000000500 False
           (alreadySavedEffect noTranslations freshView))
      = (if isSaved (alreadySavedEffect noTranslations freshView)
         then quizSavedResults freshView
         else Stored ((case quizSavedResults freshView of Stored rs \<Rightarrow> rs | other \<Rightarrow> [])
                @ [savedResultJson
                     \<lparr>timestamp = 1700000000500, sr_answers = rv_answers freshView,
                      sr_worldviewImageUrl =
                        (case rv_worldviewImageUrl freshView of
                           None \<Rightarrow> None
                         | Some url \<Rightarrow> if url = [] then None else Some url)\<rparr>]))"
    using b by (rule handleSaveResults_no_duplicate[THEN conjunct2, rule_format])
  have f: "\<not> isSaved (alreadySavedEffect noTranslations freshView)"
    "quizSavedResults freshView = Absent" "rv_answers freshView = [(5, sampleAnswer)]"
    "rv_worldviewImageUrl freshView = None"
    by (simp_all add: alreadySavedEffect_def freshView_def)
  have C: "quizSavedResults
        (handleSaveResults noTranslations 1700000000500 False
           (alreadySavedEffect noTranslations freshView))
     = Stored [savedResultJson
                 \<lparr>timestamp = 1700000000500, sr_answers = [(5, sampleAnswer)],
                  sr_worldviewImageUrl = None\<rparr>]"
    using B[THEN conjunct2, THEN conjunct2] by (simp add: f)
  show ?thesis using A B C by blast
qed

end
